theory Spec2Isabelle
  imports Complex_Main
begin

section \<open>Python values and exceptions\<close>

text \<open>
  The exceptions that the modelled functions of \<^verbatim>\<open>webbpsf_ext_core.py\<close>,
  \<^verbatim>\<open>image_manip.py\<close> and \<^verbatim>\<open>coords.py\<close> can raise. \<open>External\<close> stands for
  an exception raised inside a call into code outside the three source files (WebbPSF, numpy,
  the \<^verbatim>\<open>psfs\<close>/\<^verbatim>\<open>maths\<close> modules).
\<close>

datatype py_error =
    KeyError string
  | ValueError string
  | AssertionError string
  | UnboundLocalError string
  | TypeError string
  | AttributeError string
  | IndexError
  | NotImplementedError string
  | External string

text \<open>The scalar Python values that reach \<^verbatim>\<open>_check_list\<close>.\<close>

datatype pyval = PNone | PBool bool | PInt int | PStr string

text \<open>Python's \<^verbatim>\<open>==\<close> on these values: \<^verbatim>\<open>bool\<close> is a subtype of \<^verbatim>\<open>int\<close>
  (\<^verbatim>\<open>True == 1\<close>), \<^verbatim>\<open>None\<close> equals only itself.\<close>

fun py_eq :: "pyval \<Rightarrow> pyval \<Rightarrow> bool" where
  "py_eq PNone PNone = True"
| "py_eq (PBool a) (PBool b) = (a = b)"
| "py_eq (PBool a) (PInt i) = ((if a then 1 else 0) = i)"
| "py_eq (PInt i) (PBool a) = (i = (if a then 1 else 0))"
| "py_eq (PInt i) (PInt j) = (i = j)"
| "py_eq (PStr s) (PStr t) = (s = t)"
| "py_eq _ _ = False"

text \<open>\<^verbatim>\<open>value in temp_list\<close>.\<close>

definition py_in :: "pyval \<Rightarrow> pyval list \<Rightarrow> bool" where
  "py_in v xs = list_ex (py_eq v) xs"

text \<open>\<^verbatim>\<open>temp_list.index(None)\<close>, used only when \<^verbatim>\<open>None in temp_list\<close>: the position of
  the first element equal to \<^verbatim>\<open>None\<close>.\<close>

fun py_index_None :: "pyval list \<Rightarrow> nat" where
  "py_index_None [] = 0"
| "py_index_None (x # xs) = (if py_eq x PNone then 0 else Suc (py_index_None xs))"

text \<open>\<^verbatim>\<open>str(val)\<close>.\<close>

definition digit_char :: "nat \<Rightarrow> char" where
  "digit_char d = char_of (48 + d)"

fun str_nat :: "nat \<Rightarrow> string" where
  "str_nat n = (if n < 10 then [digit_char n] else str_nat (n div 10) @ [digit_char (n mod 10)])"

declare str_nat.simps [simp del]

definition str_int :: "int \<Rightarrow> string" where
  "str_int i = (if i < 0 then CHR ''-'' # str_nat (nat (- i)) else str_nat (nat i))"

fun py_str :: "pyval \<Rightarrow> string" where
  "py_str PNone = ''None''"
| "py_str (PBool b) = (if b then ''True'' else ''False'')"
| "py_str (PInt i) = str_int i"
| "py_str (PStr s) = s"

text \<open>\<^verbatim>\<open>', '.join(...)\<close>.\<close>

fun join_comma :: "string list \<Rightarrow> string" where
  "join_comma [] = []"
| "join_comma [s] = s"
| "join_comma (s # t # ts) = s @ '', '' @ join_comma (t # ts)"

section \<open>\<^verbatim>\<open>_check_list\<close> (webbpsf\_ext\_core.py, lines 1219--1234)\<close>

text \<open>
  \<^verbatim>\<open>
  def _check_list(value, temp_list, var_name=None):
      if value not in temp_list:
          # Replace None value with string for printing
          if None in temp_list:
              temp_list[temp_list.index(None)] = 'None'
          # Make sure all elements are strings
          temp_list2 = [str(val) for val in temp_list]
          var_name = '' if var_name is None else var_name + ' '
          err_str = "Invalid {}setting: {} \n\tValid values are: {}" \
                           .format(var_name, value, ', '.join(temp_list2))
          raise ValueError(err_str)
  \<close>
  The list is passed by reference and assigned to by index, so the model returns the caller's
  list as it is after the call, together with the outcome.
\<close>

definition check_list_msg :: "pyval \<Rightarrow> pyval list \<Rightarrow> string option \<Rightarrow> string" where
  "check_list_msg v temp_list var_name =
     ''Invalid '' @ (case var_name of None \<Rightarrow> '''' | Some n \<Rightarrow> n @ '' '') @ ''setting: '' @ py_str v
       @ '' '' @ [char_of (10::nat), char_of (9::nat)] @ ''Valid values are: ''
       @ join_comma (map py_str temp_list)"

definition check_list :: "pyval \<Rightarrow> pyval list \<Rightarrow> string option \<Rightarrow> pyval list \<times> (py_error + unit)" where
  "check_list v temp_list var_name =
     (if \<not> py_in v temp_list then
        (let temp_list' =
               (if py_in PNone temp_list
                then temp_list[py_index_None temp_list := PStr ''None'']
                else temp_list)
         in (temp_list', Inl (ValueError (check_list_msg v temp_list' var_name))))
      else (temp_list, Inr ()))"

section \<open>Instrument state\<close>

text \<open>
  The attributes of an instrument object (\<^verbatim>\<open>NIRCam_ext\<close> or \<^verbatim>\<open>MIRI_ext\<close>) that the
  modelled methods read or write. Attributes whose Python name starts with an underscore carry
  the prefix \<open>priv_\<close>. Python floats are modelled as exact reals. The type \<open>'c\<close> is that of
  numpy arrays (coefficient cubes, grids).
\<close>

datatype 'c dictval = DNone | DArr 'c | DStr string

datatype optval = ONone | ONum real | OStr string | OBool bool

record 'c inst =
  name :: string
  pupil_mask :: "string option"
  image_mask :: "string option"
  priv_ndeg :: "int option"
  priv_quick :: "bool option"
  use_legendre :: bool
  priv_fov_pix :: real
  priv_oversample :: "real option"
  priv_fovmax_wfedrift :: real
  priv_fovmax_wfefield :: real
  include_si_wfe :: bool
  psf_coeff :: "'c option"
  priv_psf_coeff_mod :: "string \<rightharpoonup> 'c dictval"
  options :: "string \<rightharpoonup> optval"
  logging_level :: string
  priv_detector_position :: "real \<times> real"

text \<open>\<^verbatim>\<open>sub in s\<close> for two strings.\<close>

fun starts_with :: "string \<Rightarrow> string \<Rightarrow> bool" where
  "starts_with s [] = True"
| "starts_with [] (p # ps) = False"
| "starts_with (c # cs) (p # ps) = (c = p \<and> starts_with cs ps)"

fun str_contains :: "string \<Rightarrow> string \<Rightarrow> bool" where
  "str_contains sub [] = (sub = [])"
| "str_contains sub (c # cs) = (starts_with (c # cs) sub \<or> str_contains sub cs)"

subsection \<open>Derived flags (lines 130--147, 166--172, 677--705)\<close>

text \<open>
  \<^verbatim>\<open>
  class NIRCam_ext:
      def is_lyot(self):
          pupil = self.pupil_mask
          return (pupil is not None) and ('LYOT' in pupil)
      def is_coron(self):
          mask = self.image_mask
          return self.is_lyot and ((mask is not None) and ('MASK' in mask))
      def is_grism(self):
          pupil = self.pupil_mask
          return (pupil is not None) and ('GRISM' in pupil)
      def oversample(self):
          if self._oversample is None:
              oversample = 2 if self.is_lyot else 4
          else:
              oversample = self._oversample
          return oversample
  class MIRI_ext:
      def is_coron(self):
          pupil = self.pupil_mask
          return (pupil is not None) and (('LYOT' in pupil) or ('FQPM' in pupil))
      def is_slitspec(self):
          pupil = self.pupil_mask
          return (pupil is not None) and ('LRS' in pupil)
      def oversample(self):
          if self._oversample is None:
              oversample = 2 if self.is_coron else 4
          ...
  \<close>
  The functions shared by both classes call \<^verbatim>\<open>self.is_coron\<close> and \<^verbatim>\<open>self.oversample\<close>;
  the class is told by \<^verbatim>\<open>self.name\<close>, which is \<^verbatim>\<open>'MIRI'\<close> for \<^verbatim>\<open>MIRI_ext\<close> and
  \<^verbatim>\<open>'NIRCam'\<close> for \<^verbatim>\<open>NIRCam_ext\<close>.
\<close>

definition NIRCam_ext_is_lyot :: "('c, 'z) inst_scheme \<Rightarrow> bool" where
  "NIRCam_ext_is_lyot self =
     (case pupil_mask self of None \<Rightarrow> False | Some pupil \<Rightarrow> str_contains ''LYOT'' pupil)"

definition NIRCam_ext_is_coron :: "('c, 'z) inst_scheme \<Rightarrow> bool" where
  "NIRCam_ext_is_coron self =
     (NIRCam_ext_is_lyot self \<and>
      (case image_mask self of None \<Rightarrow> False | Some msk \<Rightarrow> str_contains ''MASK'' msk))"

definition NIRCam_ext_is_grism :: "('c, 'z) inst_scheme \<Rightarrow> bool" where
  "NIRCam_ext_is_grism self =
     (case pupil_mask self of None \<Rightarrow> False | Some pupil \<Rightarrow> str_contains ''GRISM'' pupil)"

definition MIRI_ext_is_coron :: "('c, 'z) inst_scheme \<Rightarrow> bool" where
  "MIRI_ext_is_coron self =
     (case pupil_mask self of
        None \<Rightarrow> False
      | Some pupil \<Rightarrow> str_contains ''LYOT'' pupil \<or> str_contains ''FQPM'' pupil)"

definition MIRI_ext_is_slitspec :: "('c, 'z) inst_scheme \<Rightarrow> bool" where
  "MIRI_ext_is_slitspec self =
     (case pupil_mask self of None \<Rightarrow> False | Some pupil \<Rightarrow> str_contains ''LRS'' pupil)"

definition is_coron :: "('c, 'z) inst_scheme \<Rightarrow> bool" where
  "is_coron self =
     (if name self = ''MIRI'' then MIRI_ext_is_coron self else NIRCam_ext_is_coron self)"

definition oversample :: "('c, 'z) inst_scheme \<Rightarrow> real" where
  "oversample self =
     (case priv_oversample self of
        Some v \<Rightarrow> v
      | None \<Rightarrow>
          (if name self = ''MIRI''
           then (if MIRI_ext_is_coron self then 2 else 4)
           else (if NIRCam_ext_is_lyot self then 2 else 4)))"

subsection \<open>\<^verbatim>\<open>quick\<close> and \<^verbatim>\<open>ndeg\<close> (lines 201--217 and 734--753)\<close>

text \<open>
  \<^verbatim>\<open>
  class NIRCam_ext:                                  class MIRI_ext:
      @property                                          @property
      def ndeg(self):                                    def ndeg(self):
          ndeg = self._ndeg                                  ndeg = self._ndeg
          if ndeg is None:                                   if ndeg is None:
              if self.use_legendre:                              if self.use_legendre:
                  ndeg = 7 if self.quick else 9                      ndeg = 4 if self.quick else 7
              else:                                              else:
                  ndeg = 7 if self.quick else 9                      ndeg = 4 if self.quick else 7
          return ndeg                                        return ndeg
      @property                                          @property
      def quick(self):                                   def quick(self):
          return False if self._quick is None \              return True if self._quick is None \
                 else self._quick                                   else self._quick
  \<close>
\<close>

definition NIRCam_ext_quick :: "('c, 'z) inst_scheme \<Rightarrow> bool" where
  "NIRCam_ext_quick self = (case priv_quick self of None \<Rightarrow> False | Some q \<Rightarrow> q)"

definition NIRCam_ext_ndeg :: "('c, 'z) inst_scheme \<Rightarrow> int" where
  "NIRCam_ext_ndeg self =
     (case priv_ndeg self of
        Some ndeg \<Rightarrow> ndeg
      | None \<Rightarrow>
          (if use_legendre self
           then (if NIRCam_ext_quick self then 7 else 9)
           else (if NIRCam_ext_quick self then 7 else 9)))"

definition MIRI_ext_quick :: "('c, 'z) inst_scheme \<Rightarrow> bool" where
  "MIRI_ext_quick self = (case priv_quick self of None \<Rightarrow> True | Some q \<Rightarrow> q)"

definition MIRI_ext_ndeg :: "('c, 'z) inst_scheme \<Rightarrow> int" where
  "MIRI_ext_ndeg self =
     (case priv_ndeg self of
        Some ndeg \<Rightarrow> ndeg
      | None \<Rightarrow>
          (if use_legendre self
           then (if MIRI_ext_quick self then 4 else 7)
           else (if MIRI_ext_quick self then 4 else 7)))"

subsection \<open>\<^verbatim>\<open>_init_inst\<close> (lines 1259--1333)\<close>

text \<open>
  The part of \<^verbatim>\<open>_init_inst\<close> that sets the attributes of the record; \<^verbatim>\<open>filter\<close>, the
  pupil-mask list, the OPD file and the save names are not modelled.
  \<^verbatim>\<open>
      if pupil_mask is not None: self.pupil_mask = pupil_mask
      if image_mask is not None: self.image_mask = image_mask
      if self.name=='MIRI':
          self.include_si_wfe = False if self.is_coron else True
      else:
          self.include_si_wfe = True
      if fov_pix is None:
          fov_pix = 128 if self.is_coron else 129
      self._fov_pix = fov_pix
      self._oversample = oversample
      self._npsf = None
      self._ndeg = None
      self.use_legendre = True
      self._quick = None
      self.options['jitter'] = None if self.is_coron else 'gaussian'
      self.options['jitter_sigma'] = 0.003
      self._fovmax_wfedrift = 256
      self._fovmax_wfefield = 128
      self.psf_coeff = None
      self.psf_coeff_header = None
      self._psf_coeff_mod = {
          'wfe_drift': None, 'wfe_drift_off': None, 'wfe_drift_lxmap': None,
          'si_field': None, 'si_field_v2grid': None, 'si_field_v3grid': None, 'si_field_apname': None,
          'si_mask': None, 'si_mask_xgrid': None, 'si_mask_ygrid': None, 'si_mask_apname': None
      }
      if self.image_mask is not None:
          self.options['coron_shift_x'] = 0
          self.options['coron_shift_y'] = 0
  \<close>
\<close>

definition psf_coeff_mod_init :: "string \<rightharpoonup> 'c dictval" where
  "psf_coeff_mod_init =
     map_of [(''wfe_drift'', DNone), (''wfe_drift_off'', DNone), (''wfe_drift_lxmap'', DNone),
             (''si_field'', DNone), (''si_field_v2grid'', DNone), (''si_field_v3grid'', DNone),
             (''si_field_apname'', DNone),
             (''si_mask'', DNone), (''si_mask_xgrid'', DNone), (''si_mask_ygrid'', DNone),
             (''si_mask_apname'', DNone)]"

definition init_inst ::
  "'c inst \<Rightarrow> string option \<Rightarrow> string option \<Rightarrow> real option \<Rightarrow> real option \<Rightarrow> 'c inst" where
  "init_inst self pupil_mask_arg image_mask_arg fov_pix_arg oversample_arg =
     (let self1 = (case pupil_mask_arg of None \<Rightarrow> self | Some p \<Rightarrow> self\<lparr>pupil_mask := Some p\<rparr>);
          self2 = (case image_mask_arg of None \<Rightarrow> self1 | Some m \<Rightarrow> self1\<lparr>image_mask := Some m\<rparr>);
          self3 = self2\<lparr>include_si_wfe :=
                     (if name self2 = ''MIRI'' then (if is_coron self2 then False else True)
                      else True)\<rparr>;
          fov_pix = (case fov_pix_arg of
                       None \<Rightarrow> (if is_coron self3 then 128 else 129)
                     | Some f \<Rightarrow> f);
          self4 = self3\<lparr>priv_fov_pix := fov_pix, priv_oversample := oversample_arg,
                        priv_ndeg := None, use_legendre := True, priv_quick := None\<rparr>;
          self5 = self4\<lparr>options := (options self4)
                     (''jitter'' \<mapsto> (if is_coron self4 then ONone else OStr ''gaussian''),
                      ''jitter_sigma'' \<mapsto> ONum 0.003)\<rparr>;
          self6 = self5\<lparr>priv_fovmax_wfedrift := 256, priv_fovmax_wfefield := 128,
                        psf_coeff := None, priv_psf_coeff_mod := psf_coeff_mod_init\<rparr>
      in (case image_mask self6 of
            Some m \<Rightarrow> self6\<lparr>options := (options self6)
                        (''coron_shift_x'' \<mapsto> ONum 0, ''coron_shift_y'' \<mapsto> ONum 0)\<rparr>
          | None \<Rightarrow> self6))"

text \<open>
  An instrument object before \<^verbatim>\<open>_init_inst\<close> runs, used for the concrete instances below:
  the name is set by the WebbPSF base class, no pupil or image mask is selected, the option
  dictionary is empty and the detector position is the centre of a 2048-pixel detector. The
  other attributes are overwritten by \<^verbatim>\<open>_init_inst\<close>.
\<close>

definition base_instrument :: "string \<Rightarrow> real inst" where
  "base_instrument nm =
     \<lparr>name = nm, pupil_mask = None, image_mask = None, priv_ndeg = None, priv_quick = None,
      use_legendre = False, priv_fov_pix = 0, priv_oversample = None,
      priv_fovmax_wfedrift = 0, priv_fovmax_wfefield = 0, include_si_wfe = False,
      psf_coeff = None, priv_psf_coeff_mod = Map.empty, options = Map.empty,
      logging_level = ''INFO'', priv_detector_position = (1024, 1024)\<rparr>"

section \<open>\<^verbatim>\<open>_gen_wfedrift_coeff\<close> (lines 1859--2019)\<close>

text \<open>
  The calls that leave the three source files are parameters of the model:
  \<^item> \<open>gen self wfe_drift\<close> is
    \<^verbatim>\<open>self.gen_psf_coeff(wfe_drift=wfe_drift, force=True, save=False, return_results=True)\<close>,
    which returns a coefficient cube or raises; with \<^verbatim>\<open>return_results=True\<close> it leaves the
    attributes modelled here as they are;
  \<^item> \<open>jl_poly_fit wfe_list resid lxmap\<close> is the degree-4 Legendre fit with its two reshapes;
  \<^item> \<open>np_array\<close> builds an array from a list of numbers;
  \<^item> \<open>cache\<close> is the content of the \<^verbatim>\<open>_wfedrift.npz\<close> file when it exists.
  Log messages of this function and the writing of the file (\<^verbatim>\<open>save\<close>) are not
  modelled; the process-wide logging level that \<^verbatim>\<open>setup_logging\<close> sets is the field
  \<open>logging_level\<close>.
\<close>

text \<open>Python's \<^verbatim>\<open>x % 2\<close> on a float.\<close>

definition py_mod2 :: "real \<Rightarrow> real" where
  "py_mod2 x = x - 2 * of_int \<lfloor>x / 2\<rfloor>"

text \<open>
  \<^verbatim>\<open>
      fov_max = self._fovmax_wfedrift if self.oversample<=4 else self._fovmax_wfedrift / 2
      fov_pix_orig = self.fov_pix
      if self.fov_pix>fov_max:
          self.fov_pix = fov_max if (self.fov_pix % 2 == 0) else fov_max + 1
  \<close>
\<close>

definition cap_fov_pix :: "real \<Rightarrow> 'c inst \<Rightarrow> 'c inst" where
  "cap_fov_pix fovmax self =
     (let fov_max = (if oversample self \<le> 4 then fovmax else fovmax / 2)
      in if priv_fov_pix self > fov_max
         then self\<lparr>priv_fov_pix := (if py_mod2 (priv_fov_pix self) = 0 then fov_max else fov_max + 1)\<rparr>
         else self)"

text \<open>
  \<^verbatim>\<open>
      cf_wfe = []
      for wfe_drift in tqdm(wfe_list, leave=False, desc='WFE Drift'):
          cf, _ = self.gen_psf_coeff(wfe_drift=wfe_drift, force=True, save=False,
                                     return_results=True, **kwargs)
          cf_wfe.append(cf)
  \<close>
  An exception raised by \<^verbatim>\<open>gen_psf_coeff\<close> leaves the loop and the function.
\<close>

fun sweep :: "('c inst \<Rightarrow> real \<Rightarrow> py_error + 'c) \<Rightarrow> 'c inst \<Rightarrow> real list \<Rightarrow> py_error + 'c list" where
  "sweep gen self [] = Inr []"
| "sweep gen self (wfe_drift # rest) =
     (case gen self wfe_drift of
        Inl e \<Rightarrow> Inl e
      | Inr cf \<Rightarrow> (case sweep gen self rest of Inl e \<Rightarrow> Inl e | Inr cfs \<Rightarrow> Inr (cf # cfs)))"

text \<open>\<^verbatim>\<open>cf_wfe = cf_wfe - cf_wfe[0]\<close>: the cube at index 0 is subtracted from every cube of
  the series; on an empty series \<^verbatim>\<open>cf_wfe[0]\<close> raises.\<close>

definition subtract_index0 :: "'c::minus list \<Rightarrow> py_error + 'c list" where
  "subtract_index0 cf_wfe =
     (case cf_wfe of [] \<Rightarrow> Inl IndexError | c0 # _ \<Rightarrow> Inr (map (\<lambda>c. c - c0) cf_wfe))"

text \<open>\<^verbatim>\<open>np.min(wfe_list)\<close> and \<^verbatim>\<open>np.max(wfe_list)\<close> of a non-empty list.\<close>

definition np_min :: "real list \<Rightarrow> real" where
  "np_min xs = fold min (tl xs) (hd xs)"

definition np_max :: "real list \<Rightarrow> real" where
  "np_max xs = fold max (tl xs) (hd xs)"

datatype 'c drift_result =
    ReturnNone
  | ReturnRaw "'c list" "'c list option" "real list"
  | ReturnResults 'c "'c option" 'c

text \<open>
  Lines 1978--1986 and 1998--2006: residuals and fit of one series.
  \<^verbatim>\<open>
      cf_wfe = cf_wfe - cf_wfe[0]
      cf_shape = cf_wfe.shape[1:]
      cf_wfe = cf_wfe.reshape([npos, -1])
      lxmap = np.array([np.min(wfe_list), np.max(wfe_list)])
      cf_fit = jl_poly_fit(wfe_list, cf_wfe, deg=4, use_legendre=True, lxmap=lxmap)
      cf_fit = cf_fit.reshape([-1, cf_shape[0], cf_shape[1], cf_shape[2]])
  \<close>
\<close>

definition fit_residuals ::
  "(real list \<Rightarrow> 'c list \<Rightarrow> 'c \<Rightarrow> py_error + 'c) \<Rightarrow> (real list \<Rightarrow> 'c) \<Rightarrow> real list \<Rightarrow>
   'c::minus list \<Rightarrow> py_error + ('c \<times> 'c)" where
  "fit_residuals jl_poly_fit np_array wfe_list cf_wfe =
     (case subtract_index0 cf_wfe of
        Inl e \<Rightarrow> Inl e
      | Inr resid \<Rightarrow>
          (let lxmap = np_array [np_min wfe_list, np_max wfe_list]
           in case jl_poly_fit wfe_list resid lxmap of
                Inl e \<Rightarrow> Inl e
              | Inr cf_fit \<Rightarrow> Inr (cf_fit, lxmap)))"

text \<open>\<^verbatim>\<open>self.options[off_pos]\<close> for the two mask-shift keys (lines 1945--1948); the value is
  only used for a log message.\<close>

definition read_shift_options :: "'c inst \<Rightarrow> py_error + unit" where
  "read_shift_options self =
     (case options self ''coron_shift_x'' of
        None \<Rightarrow> Inl (KeyError ''coron_shift_x'')
      | Some _ \<Rightarrow>
          (case options self ''coron_shift_y'' of
             None \<Rightarrow> Inl (KeyError ''coron_shift_y'')
           | Some _ \<Rightarrow> Inr ()))"

text \<open>Lines 2013--2019: return the results or store them in \<^verbatim>\<open>self._psf_coeff_mod\<close>.\<close>

definition store_wfedrift :: "'c inst \<Rightarrow> 'c dictval \<Rightarrow> 'c dictval \<Rightarrow> 'c dictval \<Rightarrow> 'c inst" where
  "store_wfedrift self cf_fit cf_fit_off lxmap =
     self\<lparr>priv_psf_coeff_mod := (priv_psf_coeff_mod self)
            (''wfe_drift'' \<mapsto> cf_fit, ''wfe_drift_off'' \<mapsto> cf_fit_off, ''wfe_drift_lxmap'' \<mapsto> lxmap)\<rparr>"

definition gen_wfedrift_coeff ::
  "('c inst \<Rightarrow> real \<Rightarrow> py_error + 'c) \<Rightarrow> (real list \<Rightarrow> 'c list \<Rightarrow> 'c \<Rightarrow> py_error + 'c) \<Rightarrow>
   (real list \<Rightarrow> 'c) \<Rightarrow> ('c \<times> 'c \<times> 'c) option \<Rightarrow>
   'c::minus inst \<Rightarrow> bool \<Rightarrow> bool \<Rightarrow> real list \<Rightarrow> bool \<Rightarrow> bool \<Rightarrow>
   'c inst \<times> (py_error + 'c drift_result)" where
  "gen_wfedrift_coeff gen jl_poly_fit np_array cache self force save wfe_list return_results return_raw =
     (let fov_pix_orig = priv_fov_pix self;
          self1 = cap_fov_pix (priv_fovmax_wfedrift self) self
      in case (if \<not> force then cache else None) of
           Some (arr_0, arr_1, arr_2) \<Rightarrow>
             (let self2 = self1\<lparr>priv_fov_pix := fov_pix_orig\<rparr>
              in if return_results then (self2, Inr (ReturnResults arr_0 (Some arr_1) arr_2))
                 else (store_wfedrift self2 (DArr arr_0) (DArr arr_1) (DArr arr_2), Inr ReturnNone))
         | None \<Rightarrow>
             (case read_shift_options self1 of
                Inl e \<Rightarrow> (self1, Inl e)
              | Inr _ \<Rightarrow>
                  (let log_prev = logging_level self1;
                       self2 = self1\<lparr>logging_level := ''WARN''\<rparr>
                   in case sweep gen self2 wfe_list of
                        Inl e \<Rightarrow> (self2, Inl e)
                      | Inr cf_wfe \<Rightarrow>
                          (if is_coron self2 then
                             (let image_mask_orig = image_mask self2;
                                  self3 = self2\<lparr>image_mask := None\<rparr>
                              in case sweep gen self3 wfe_list of
                                   Inl e \<Rightarrow> (self3, Inl e)
                                 | Inr cf_wfe_off \<Rightarrow>
                                     (let self4 = self3\<lparr>image_mask := image_mask_orig,
                                                        priv_fov_pix := fov_pix_orig,
                                                        logging_level := log_prev\<rparr>
                                      in if return_raw
                                         then (self4, Inr (ReturnRaw cf_wfe (Some cf_wfe_off) wfe_list))
                                         else (case fit_residuals jl_poly_fit np_array wfe_list cf_wfe_off of
                                                 Inl e \<Rightarrow> (self4, Inl e)
                                               | Inr (cf_fit_off, _) \<Rightarrow>
                                                   (case fit_residuals jl_poly_fit np_array wfe_list cf_wfe of
                                                      Inl e \<Rightarrow> (self4, Inl e)
                                                    | Inr (cf_fit, lxmap) \<Rightarrow>
                                                        (if return_results
                                                         then (self4, Inr (ReturnResults cf_fit (Some cf_fit_off) lxmap))
                                                         else (store_wfedrift self4 (DArr cf_fit) (DArr cf_fit_off) (DArr lxmap),
                                                               Inr ReturnNone))))))
                           else
                             (let self4 = self2\<lparr>priv_fov_pix := fov_pix_orig, logging_level := log_prev\<rparr>
                              in if return_raw
                                 then (self4, Inr (ReturnRaw cf_wfe None wfe_list))
                                 else (case fit_residuals jl_poly_fit np_array wfe_list cf_wfe of
                                         Inl e \<Rightarrow> (self4, Inl e)
                                       | Inr (cf_fit, lxmap) \<Rightarrow>
                                           (if return_results
                                            then (self4, Inr (ReturnResults cf_fit None lxmap))
                                            else (store_wfedrift self4 (DArr cf_fit) DNone (DArr lxmap),
                                                  Inr ReturnNone))))))))"

section \<open>Residuals in \<^verbatim>\<open>_gen_wfemask_coeff\<close> and \<^verbatim>\<open>_gen_wfefield_coeff\<close>\<close>

subsection \<open>The grid of mask offsets (lines 2248--2316)\<close>

text \<open>
  \<^verbatim>\<open>
      if self.name=='MIRI':
          if 'FQPM' in self.image_mask:
              xy_offsets = -1 * np.array([0, 0.005, 0.01, 0.08, 0.10, 0.2, 0.5, 1, 10, 12])
          elif 'LYOT' in self.image_mask:
              xy_offsets = -1 * np.array([0, 0.01, 0.1, 0.36, 0.5, 1, 2.1, 10, 15])
          else:
              raise NotImplementedError(...)
          xy_offsets[0] = 0
          xy_offsets = xy_offsets[::-1] # Ascending order
          x_offsets = y_offsets = xy_offsets
          grid_vals = np.array(np.meshgrid(y_offsets,x_offsets))
          xy_list = [(x,y) for x,y in grid_vals.reshape([2,-1]).transpose()]
          xoff, yoff = np.array(xy_list).transpose()
          ind_zero = (np.abs(xoff)==0) & (np.abs(yoff)==0)
          ind_sgd = (np.abs(xoff)<=0.01) & (np.abs(yoff)<=0.01) & ~ind_zero
      elif self.name=='NIRCam':
          if self.image_mask[-1]=='R': # Round masks
              xy_inner = np.array([0, 0.015, 0.02, 0.05, 0.1])
              xy_mid = np.array([0.6, 1.2, 2, 2.5])
              if '210R' in self.image_mask:
                  xy_mid *= 0.488
              elif '335R' in self.image_mask:
                  xy_mid *= 0.779
              xy_outer = np.array([5.0, 8.0])
              xy_offsets = -1 * np.concatenate((xy_inner, xy_mid, xy_outer))
              xy_offsets[0] = 0
              xy_offsets = xy_offsets[::-1] # Ascending order
              x_offsets = y_offsets = xy_offsets
              grid_vals = np.array(np.meshgrid(x_offsets,y_offsets))
              ...
              ind_zero = (np.abs(xoff)==0) & (np.abs(yoff)==0)
              ind_sgd = (np.abs(xoff)<=0.02) & (np.abs(yoff)<=0.02) & ~ind_zero
          else: # Bar masks
              y_inner = np.array([0, 0.01, 0.02, 0.05, 0.1])
              y_mid = np.array([0.6, 1.2, 2, 2.5])
              if 'SW' in self.image_mask:
                  y_mid *= 0.488
              y_outer = np.array([5,8])
              y_offsets = np.concatenate([y_inner, y_mid, y_outer])
              x_offsets = np.array([-8, -6, -4, -2, 0, 2, 4, 6, 8], dtype='float')
              x_offsets = -1*x_offsets[::-1]
              y_offsets = -1*y_offsets[::-1]
              grid_vals = np.array(np.meshgrid(x_offsets,y_offsets))
              ...
              ind_zero = np.abs(yoff)==0
              ind_sgd = (np.abs(yoff) <= 0.02) & ~ind_zero
  \<close>
  \<^verbatim>\<open>np.meshgrid(a, b)\<close> followed by \<^verbatim>\<open>reshape([2,-1]).transpose()\<close> lists the pairs
  \<^verbatim>\<open>(a[i], b[j])\<close> with \<^verbatim>\<open>j\<close> in the outer and \<^verbatim>\<open>i\<close> in the inner loop.
\<close>

definition meshgrid_pairs :: "real list \<Rightarrow> real list \<Rightarrow> (real \<times> real) list" where
  "meshgrid_pairs a b = concat (map (\<lambda>bj. map (\<lambda>ai. (ai, bj)) a) b)"

text \<open>\<^verbatim>\<open>xy_offsets[0] = 0\<close>.\<close>

definition set_first_zero :: "real list \<Rightarrow> real list" where
  "set_first_zero xs = xs[0 := 0]"

record mask_grid =
  x_offsets :: "real list"
  y_offsets :: "real list"
  xy_list :: "(real \<times> real) list"
  ind_sgd :: "bool list"

definition mask_grid_symmetric :: "real list \<Rightarrow> real \<Rightarrow> mask_grid" where
  "mask_grid_symmetric table sgd_max =
     (let xy_offsets = rev (set_first_zero (map (\<lambda>v. -1 * v) table));
          xy = meshgrid_pairs xy_offsets xy_offsets
      in \<lparr>x_offsets = xy_offsets, y_offsets = xy_offsets, xy_list = xy,
          ind_sgd = map (\<lambda>(x, y). \<bar>x\<bar> \<le> sgd_max \<and> \<bar>y\<bar> \<le> sgd_max \<and> \<not> (\<bar>x\<bar> = 0 \<and> \<bar>y\<bar> = 0)) xy\<rparr>)"

definition gen_mask_grid :: "'c inst \<Rightarrow> py_error + mask_grid" where
  "gen_mask_grid self =
     (if name self = ''MIRI'' then
        (case image_mask self of
           None \<Rightarrow> Inl (TypeError ''argument of type NoneType is not iterable'')
         | Some m \<Rightarrow>
             (if str_contains ''FQPM'' m
              then Inr (mask_grid_symmetric [0, 0.005, 0.01, 0.08, 0.10, 0.2, 0.5, 1, 10, 12] 0.01)
              else if str_contains ''LYOT'' m
              then Inr (mask_grid_symmetric [0, 0.01, 0.1, 0.36, 0.5, 1, 2.1, 10, 15] 0.01)
              else Inl (NotImplementedError ''MIRI with this image mask not implemented.'')))
      else if name self = ''NIRCam'' then
        (case image_mask self of
           None \<Rightarrow> Inl (TypeError ''NoneType object is not subscriptable'')
         | Some m \<Rightarrow>
             (if m = [] then Inl IndexError
              else if last m = CHR ''R'' then
                (let xy_mid = (if str_contains ''210R'' m then map (\<lambda>v. v * 0.488) [0.6, 1.2, 2, 2.5]
                               else if str_contains ''335R'' m then map (\<lambda>v. v * 0.779) [0.6, 1.2, 2, 2.5]
                               else [0.6, 1.2, 2, 2.5])
                 in Inr (mask_grid_symmetric ([0, 0.015, 0.02, 0.05, 0.1] @ xy_mid @ [5.0, 8.0]) 0.02))
              else
                (let y_mid = (if str_contains ''SW'' m then map (\<lambda>v. v * 0.488) [0.6, 1.2, 2, 2.5]
                              else [0.6, 1.2, 2, 2.5]);
                     y_offs = [0, 0.01, 0.02, 0.05, 0.1] @ y_mid @ [5, 8];
                     x_offs = [-8, -6, -4, -2, 0, 2, 4, 6, 8];
                     x_offs' = map (\<lambda>v. -1 * v) (rev x_offs);
                     y_offs' = map (\<lambda>v. -1 * v) (rev y_offs);
                     xy = meshgrid_pairs x_offs' y_offs'
                 in Inr \<lparr>x_offsets = x_offs', y_offsets = y_offs', xy_list = xy,
                         ind_sgd = map (\<lambda>(x, y). \<bar>y\<bar> \<le> 0.02 \<and> \<not> (\<bar>y\<bar> = 0)) xy\<rparr>)))
      else Inl (UnboundLocalError ''xy_list''))"

subsection \<open>The sweep over the grid and the residuals (lines 2319--2350)\<close>

text \<open>
  \<^verbatim>\<open>
      cf_all = []
      npos = len(xy_list)
      for i in trange(npos, leave=False, desc=""):
          self.options['coron_shift_x'] = xy_list[i][0]
          self.options['coron_shift_y'] = xy_list[i][1]
          if ind_sgd[i]==True:
              # Add just a set of 0s for SGD positions
              cf = np.zeros(self.psf_coeff.shape)
          else:
              cf, _ = self.gen_psf_coeff(return_results=True, force=True, save=False, **kwargs)
          cf_all.append(cf)
      ...
      # Get residuals
      coeff0 = cf_all[-1] # (0,0) is in final position
      cf_resid = np.array(cf_all) - coeff0
  \<close>
  \<open>gen self\<close> is \<^verbatim>\<open>self.gen_psf_coeff(return_results=True, force=True, save=False)\<close>. Arrays of
  one shape with elementwise \<open>+\<close> and \<open>-\<close> are a type of class \<open>ab_group_add\<close>, whose \<open>0\<close> is
  \<^verbatim>\<open>np.zeros\<close> of that shape.
\<close>

fun mask_sweep ::
  "('c inst \<Rightarrow> py_error + 'c) \<Rightarrow> 'c::zero inst \<Rightarrow> (real \<times> real) list \<Rightarrow> bool list \<Rightarrow>
   'c inst \<times> (py_error + 'c list)" where
  "mask_sweep gen self [] sgd = (self, Inr [])"
| "mask_sweep gen self ((x, y) # rest) sgd =
     (let self1 = self\<lparr>options := (options self)(''coron_shift_x'' \<mapsto> ONum x, ''coron_shift_y'' \<mapsto> ONum y)\<rparr>
      in case sgd of
           [] \<Rightarrow> (self1, Inl IndexError)
         | is_sgd # sgd_rest \<Rightarrow>
             (case (if is_sgd
                    then (case psf_coeff self1 of
                            None \<Rightarrow> Inl (AttributeError ''NoneType object has no attribute shape'')
                          | Some c \<Rightarrow> Inr 0)
                    else gen self1) of
                Inl e \<Rightarrow> (self1, Inl e)
              | Inr cf \<Rightarrow>
                  (case mask_sweep gen self1 rest sgd_rest of
                     (self2, Inl e) \<Rightarrow> (self2, Inl e)
                   | (self2, Inr cfs) \<Rightarrow> (self2, Inr (cf # cfs)))))"

definition subtract_last :: "'c::minus list \<Rightarrow> py_error + 'c list" where
  "subtract_last cf_all =
     (if cf_all = [] then Inl IndexError
      else (let coeff0 = last cf_all in Inr (map (\<lambda>c. c - coeff0) cf_all)))"

definition wfemask_residuals ::
  "('c inst \<Rightarrow> py_error + 'c) \<Rightarrow> 'c::ab_group_add inst \<Rightarrow> py_error + (mask_grid \<times> 'c list)" where
  "wfemask_residuals gen self =
     (case gen_mask_grid self of
        Inl e \<Rightarrow> Inl e
      | Inr grid \<Rightarrow>
          (case mask_sweep gen self (xy_list grid) (ind_sgd grid) of
             (_, Inl e) \<Rightarrow> Inl e
           | (_, Inr cf_all) \<Rightarrow>
               (case subtract_last cf_all of
                  Inl e \<Rightarrow> Inl e
                | Inr cf_resid \<Rightarrow> Inr (grid, cf_resid))))"

subsection \<open>\<^verbatim>\<open>_gen_wfefield_coeff\<close> (lines 2022--2195)\<close>








subsection \<open>Concrete inputs\<close>



definition example_gen_shift :: "real inst \<Rightarrow> py_error + real" where
  "example_gen_shift self =
     (case (options self ''coron_shift_x'', options self ''coron_shift_y'') of
        (Some (ONum x), Some (ONum y)) \<Rightarrow> Inr (100 + x + y)
      | _ \<Rightarrow> Inl (External ''mask shift not set''))"



text \<open>
  Two coronagraphic instruments as \<^verbatim>\<open>_init_inst\<close> leaves them, with a coefficient cube in
  place: a \<^verbatim>\<open>MIRI_ext\<close> with a four-quadrant mask and \<^verbatim>\<open>fov_pix=300\<close>, and a
  \<^verbatim>\<open>NIRCam_ext\<close> with the long-wavelength bar mask.
\<close>

definition example_miri_coron :: "real inst" where
  "example_miri_coron =
     (init_inst (base_instrument ''MIRI'') (Some ''MASKFQPM'') (Some ''FQPM1065'') (Some 300) None)
       \<lparr>psf_coeff := Some 1\<rparr>"

definition example_nircam_bar :: "real inst" where
  "example_nircam_bar =
     (init_inst (base_instrument ''NIRCam'') (Some ''WEDGELYOT'') (Some ''MASKLWB'') None None)
       \<lparr>psf_coeff := Some 1\<rparr>"






section \<open>\<^verbatim>\<open>_drift_opd\<close> (lines 1503--1569)\<close>

text \<open>
  \<^verbatim>\<open>
      wfe_dict = {'therm':0, 'frill':0, 'iec':0, 'opd':opd}
      if (wfe_drift > 0):
          wfe_iec = 1 if np.abs(wfe_drift) > 2 else 0
          wfe_remain_var = wfe_drift**2 - wfe_iec**2
          wfe_frill = np.sqrt(0.8*wfe_remain_var)
          wfe_therm = np.sqrt(0.2*wfe_remain_var)
          # Negate amplitude if supplying negative wfe_drift
          if wfe_drift < 0:
              wfe_frill *= -1
              wfe_therm *= -1
              wfe_iec *= -1
          opd.apply_iec_drift(wfe_iec, delay_update=True)
          opd.apply_frill_drift(wfe_frill, delay_update=True)
          delta_time = 14*24*60 * u.min
          wfe_scale = (wfe_therm / 24)
          if wfe_scale == 0:
              delta_time = 0
          opd.thermal_slew(delta_time, case='BOL', scaling=wfe_scale)
          wfe_dict['therm'] = wfe_therm
          wfe_dict['frill'] = wfe_frill
          wfe_dict['iec']   = wfe_iec
          wfe_dict['opd']   = opd
      return wfe_dict
  \<close>
  The OPD object of WebbPSF's linear model is outside the source files; it is modelled by the
  list of the operations applied to it, in order. The elapsed time of the thermal slew is in
  minutes.
\<close>

datatype opd_call =
    Apply_iec_drift real
  | Apply_frill_drift real
  | Thermal_slew real string real

record wfe_dict =
  therm :: real
  frill :: real
  iec :: real
  opd :: "opd_call list"

definition drift_opd :: "real \<Rightarrow> opd_call list \<Rightarrow> wfe_dict" where
  "drift_opd wfe_drift opd0 =
     (if wfe_drift > 0 then
        (let wfe_iec = (if \<bar>wfe_drift\<bar> > 2 then 1 else 0);
             wfe_remain_var = wfe_drift^2 - wfe_iec^2;
             wfe_frill = sqrt (0.8 * wfe_remain_var);
             wfe_therm = sqrt (0.2 * wfe_remain_var);
             wfe_frill = (if wfe_drift < 0 then wfe_frill * -1 else wfe_frill);
             wfe_therm = (if wfe_drift < 0 then wfe_therm * -1 else wfe_therm);
             wfe_iec = (if wfe_drift < 0 then wfe_iec * -1 else wfe_iec);
             opd1 = opd0 @ [Apply_iec_drift wfe_iec];
             opd2 = opd1 @ [Apply_frill_drift wfe_frill];
             delta_time = 14 * 24 * 60;
             wfe_scale = wfe_therm / 24;
             delta_time = (if wfe_scale = 0 then 0 else delta_time);
             opd3 = opd2 @ [Thermal_slew delta_time ''BOL'' wfe_scale]
         in \<lparr>therm = wfe_therm, frill = wfe_frill, iec = wfe_iec, opd = opd3\<rparr>)
      else \<lparr>therm = 0, frill = 0, iec = 0, opd = opd0\<rparr>)"

section \<open>\<^verbatim>\<open>xy_to_rtheta\<close> and \<^verbatim>\<open>rtheta_to_xy\<close> (coords.py, lines 48--100)\<close>

text \<open>
  An argument is a Python float or a one-dimensional numpy array. Floats are modelled as
  reals, so there is no signed zero and no rounding; \<^verbatim>\<open>__epsilon = np.finfo(float).eps\<close>
  is \<open>2\<^sup>-\<^sup>5\<^sup>2\<close>.
\<close>

datatype npv = Scalar real | Arr "real list"

definition epsilon :: real where
  "epsilon = 1 / 2 ^ 52"

text \<open>\<^verbatim>\<open>np.size\<close>.\<close>

fun np_size :: "npv \<Rightarrow> nat" where
  "np_size (Scalar a) = 1"
| "np_size (Arr xs) = length xs"

text \<open>An elementwise binary operation with numpy's broadcasting of a scalar or a one-element
  array; arrays of different lengths raise.\<close>

fun broadcast2 :: "(real \<Rightarrow> real \<Rightarrow> real) \<Rightarrow> npv \<Rightarrow> npv \<Rightarrow> py_error + npv" where
  "broadcast2 f (Scalar a) (Scalar b) = Inr (Scalar (f a b))"
| "broadcast2 f (Scalar a) (Arr bs) = Inr (Arr (map (f a) bs))"
| "broadcast2 f (Arr as) (Scalar b) = Inr (Arr (map (\<lambda>a. f a b) as))"
| "broadcast2 f (Arr as) (Arr bs) =
     (if length as = length bs then Inr (Arr (map2 f as bs))
      else if length as = 1 then Inr (Arr (map (f (hd as)) bs))
      else if length bs = 1 then Inr (Arr (map (\<lambda>a. f a (hd bs)) as))
      else Inl (ValueError ''operands could not be broadcast together''))"

text \<open>\<^verbatim>\<open>np.arctan2(x1, x2)\<close>: the angle of the point with ordinate \<open>x1\<close> and abscissa \<open>x2\<close>.\<close>

definition arctan2 :: "real \<Rightarrow> real \<Rightarrow> real" where
  "arctan2 x1 x2 =
     (if x2 > 0 then arctan (x1 / x2)
      else if x2 < 0 then (if x1 \<ge> 0 then arctan (x1 / x2) + pi else arctan (x1 / x2) - pi)
      else if x1 > 0 then pi / 2
      else if x1 < 0 then - pi / 2
      else 0)"

text \<open>\<^verbatim>\<open>a[np.abs(a) < __epsilon] = 0\<close> on an array.\<close>

definition snap_array :: "real list \<Rightarrow> real list" where
  "snap_array xs = map (\<lambda>a. if \<bar>a\<bar> < epsilon then 0 else a) xs"

text \<open>\<^verbatim>\<open>if np.abs(a) < __epsilon: a = 0\<close> on a value of size 1: the name is rebound to the
  integer 0.\<close>

fun snap_scalar :: "npv \<Rightarrow> npv" where
  "snap_scalar (Scalar a) = (if \<bar>a\<bar> < epsilon then Scalar 0 else Scalar a)"
| "snap_scalar (Arr xs) = (if \<bar>hd xs\<bar> < epsilon then Scalar 0 else Arr xs)"

fun snap_elements :: "npv \<Rightarrow> npv" where
  "snap_elements (Scalar a) = Scalar a"
| "snap_elements (Arr xs) = Arr (snap_array xs)"

text \<open>
  \<^verbatim>\<open>
  def xy_to_rtheta(x, y):
      r = np.sqrt(x**2 + y**2)
      theta = np.arctan2(-x,y)*180/np.pi
      if np.size(r)==1:
          if np.abs(x) < __epsilon: x = 0
          if np.abs(y) < __epsilon: y = 0
      else:
          r[np.abs(r) < __epsilon] = 0
          theta[np.abs(theta) < __epsilon] = 0
      return r, theta
  \<close>
  In the first branch the assignments are to the local names \<open>x\<close> and \<open>y\<close>, which are not
  read again.
\<close>

definition xy_to_rtheta :: "npv \<Rightarrow> npv \<Rightarrow> py_error + (npv \<times> npv)" where
  "xy_to_rtheta x y =
     (case broadcast2 (\<lambda>a b. sqrt (a^2 + b^2)) x y of
        Inl e \<Rightarrow> Inl e
      | Inr r \<Rightarrow>
          (case broadcast2 (\<lambda>a b. arctan2 (- a) b * 180 / pi) x y of
             Inl e \<Rightarrow> Inl e
           | Inr theta \<Rightarrow>
               (if np_size r = 1 then
                  (let x' = snap_scalar x; y' = snap_scalar y in Inr (r, theta))
                else Inr (snap_elements r, snap_elements theta))))"

text \<open>
  \<^verbatim>\<open>
  def rtheta_to_xy(r, theta):
      x = -r * np.sin(theta*np.pi/180.)
      y =  r * np.cos(theta*np.pi/180.)
      if np.size(x)==1:
          if np.abs(x) < __epsilon: x = 0
          if np.abs(y) < __epsilon: y = 0
      else:
          x[np.abs(x) < __epsilon] = 0
          y[np.abs(y) < __epsilon] = 0
      return x, y
  \<close>
\<close>

definition rtheta_to_xy :: "npv \<Rightarrow> npv \<Rightarrow> py_error + (npv \<times> npv)" where
  "rtheta_to_xy r theta =
     (case broadcast2 (\<lambda>a t. - a * sin (t * pi / 180)) r theta of
        Inl e \<Rightarrow> Inl e
      | Inr x \<Rightarrow>
          (case broadcast2 (\<lambda>a t. a * cos (t * pi / 180)) r theta of
             Inl e \<Rightarrow> Inl e
           | Inr y \<Rightarrow>
               (if np_size x = 1 then Inr (snap_scalar x, snap_scalar y)
                else Inr (snap_elements x, snap_elements y))))"

text \<open>The property of an output: no element is below machine epsilon in absolute value and
  different from zero.\<close>

fun snapped :: "npv \<Rightarrow> bool" where
  "snapped (Scalar a) = (if \<bar>a\<bar> < epsilon then a = 0 else True)"
| "snapped (Arr xs) = list_all (\<lambda>a. if \<bar>a\<bar> < epsilon then a = 0 else True) xs"

section \<open>\<^verbatim>\<open>pad_or_cut_to_size\<close> on a 2-D array (image\_manip.py, lines 27--185)\<close>

text \<open>
  A 2-D numpy array is its shape and its rows. For a 2-D input the function reshapes the
  array to a stack of one image, works on the stack and returns \<^verbatim>\<open>output[0]\<close>; the model
  works on the image. \<^verbatim>\<open>new_shape\<close> is a number, or a tuple of one or two sizes.
  \<^verbatim>\<open>
      ny, nx = array.shape
      array = array.reshape([nz,ny,nx])
      if isinstance(new_shape, (float,int,np.int,np.int64)):
          ny_new = nx_new = int(new_shape+0.5)
          new_shape = (ny_new, nx_new)
      elif len(new_shape) < 2:
          ny_new = nx_new = new_shape[0]
          new_shape = (ny_new, nx_new)
      else:
          ny_new, nx_new = new_shape
      output = np.zeros(shape=(nz,ny_new,nx_new), dtype=array.dtype)
      if (array.shape == new_shape) and (offset_vals is None):
          return array
      if fill_val != 0:
          output += fill_val
      if offset_vals is not None:
          if len(offset_vals) == 2:
              ny_off, nx_off = offset_vals
          else:
              raise ValueError('offset_vals should have two values.')
      else:
          nx_off = ny_off = 0
      if nx_new>nx:
          n0 = (nx_new - nx) / 2
          n1 = n0 + nx
      elif nx>nx_new:
          n0 = (nx - nx_new) / 2
          n1 = n0 + nx_new
      else:
          n0, n1 = (0, nx)
      n0 = int(n0+0.5)
      n1 = int(n1+0.5)
      (the same for m0, m1 from ny_new and ny)
      if (nx_new>=nx) and (ny_new>=ny):
          output[:,m0:m1,n0:n1] = array.copy()
          for i, im in enumerate(output):
              output[i] = fshift(im, delx=nx_off, dely=ny_off, pad=True, cval=fill_val)
      elif (nx_new<=nx) and (ny_new<=ny):
          if (nx_off!=0) or (ny_off!=0):
              array_temp = array.copy()
              for i, im in enumerate(array_temp):
                  array_temp[i] = fshift(im, delx=nx_off, dely=ny_off, pad=True, cval=fill_val)
              output = array_temp[:,m0:m1,n0:n1]
          else:
              output = array[:,m0:m1,n0:n1]
      elif (nx_new<=nx) and (ny_new>=ny):
          if nx_off!=0:
              (array_temp[i] = fshift(im, delx=nx_off, pad=True, cval=fill_val))
              output[:,m0:m1,:] = array_temp[:,:,n0:n1]
          else:
              output[:,m0:m1,:] = array[:,:,n0:n1]
          for i, im in enumerate(output):
              output[i] = fshift(im, dely=ny_off, pad=True, cval=fill_val)
      elif (nx_new>=nx) and (ny_new<=ny):
          (the same with the axes exchanged)
      ...
      elif ndim==2:
          output = output[0]
      return output
  \<close>
  The names \<^verbatim>\<open>np.int\<close> and \<^verbatim>\<open>np.int64\<close> of the \<^verbatim>\<open>isinstance\<close> test are taken to exist,
  as they do in the numpy releases before 1.24.
  At the early return \<^verbatim>\<open>array.shape\<close> is the shape of the stack, three numbers, and
  \<^verbatim>\<open>new_shape\<close> has two, so the comparison is false and the return is never taken.

  \<^verbatim>\<open>fshift\<close> (lines 187--293) returns its image when both shifts are within \<open>10\<^sup>-\<^sup>5\<close> of
  zero (\<^verbatim>\<open>np.isclose(delx, 0, atol=1e-5)\<close>); its interpolating branch is the parameter
  \<open>interp\<close> of the model. A slice with bounds beyond the array is clipped, as numpy does;
  an assignment to a slice of another shape raises.
\<close>

text \<open>\<^verbatim>\<open>int(v)\<close> of a float: truncation towards zero.\<close>

definition py_int :: "real \<Rightarrow> int" where
  "py_int v = (if v \<ge> 0 then \<lfloor>v\<rfloor> else \<lceil>v\<rceil>)"

record 'a ndarray2 =
  ny :: nat
  nx :: nat
  data :: "'a list list"

definition wf_ndarray2 :: "'a ndarray2 \<Rightarrow> bool" where
  "wf_ndarray2 a = (length (data a) = ny a \<and> list_all (\<lambda>row. length row = nx a) (data a))"

definition np_full :: "nat \<Rightarrow> nat \<Rightarrow> 'a \<Rightarrow> 'a ndarray2" where
  "np_full h w v = \<lparr>ny = h, nx = w, data = replicate h (replicate w v)\<rparr>"

definition slice :: "nat \<Rightarrow> nat \<Rightarrow> 'b list \<Rightarrow> 'b list" where
  "slice i0 i1 xs = take (i1 - i0) (drop i0 xs)"

definition slice_len :: "nat \<Rightarrow> nat \<Rightarrow> nat \<Rightarrow> nat" where
  "slice_len i0 i1 n = min i1 n - min i0 n"

definition get_slice2 :: "'a ndarray2 \<Rightarrow> nat \<Rightarrow> nat \<Rightarrow> nat \<Rightarrow> nat \<Rightarrow> 'a ndarray2" where
  "get_slice2 a m0 m1 n0 n1 =
     \<lparr>ny = slice_len m0 m1 (ny a), nx = slice_len n0 n1 (nx a),
      data = map (slice n0 n1) (slice m0 m1 (data a))\<rparr>"

definition set_slice2 ::
  "'a ndarray2 \<Rightarrow> nat \<Rightarrow> nat \<Rightarrow> nat \<Rightarrow> nat \<Rightarrow> 'a ndarray2 \<Rightarrow> py_error + 'a ndarray2" where
  "set_slice2 out m0 m1 n0 n1 src =
     (if slice_len m0 m1 (ny out) = ny src \<and> slice_len n0 n1 (nx out) = nx src
      then Inr (out\<lparr>data :=
                  take m0 (data out)
                  @ map2 (\<lambda>orow srow. take n0 orow @ srow @ drop n1 orow)
                      (slice m0 m1 (data out)) (data src)
                  @ drop m1 (data out)\<rparr>)
      else Inl (ValueError ''could not broadcast input array''))"

definition window :: "nat \<Rightarrow> nat \<Rightarrow> nat \<times> nat" where
  "window n_new n =
     (let (n0, n1) =
            (if n_new > n then (let n0 = (real n_new - real n) / 2 in (n0, n0 + real n))
             else if n > n_new then (let n0 = (real n - real n_new) / 2 in (n0, n0 + real n_new))
             else (0, real n))
      in (nat (py_int (n0 + 0.5)), nat (py_int (n1 + 0.5))))"

datatype shape_arg = ShapeNum real | ShapeTuple "nat list"

definition parse_new_shape :: "shape_arg \<Rightarrow> py_error + (nat \<times> nat)" where
  "parse_new_shape new_shape =
     (case new_shape of
        ShapeNum v \<Rightarrow>
          (if py_int (v + 0.5) < 0 then Inl (ValueError ''negative dimensions are not allowed'')
           else Inr (nat (py_int (v + 0.5)), nat (py_int (v + 0.5))))
      | ShapeTuple [] \<Rightarrow> Inl IndexError
      | ShapeTuple [n] \<Rightarrow> Inr (n, n)
      | ShapeTuple [ny_new, nx_new] \<Rightarrow> Inr (ny_new, nx_new)
      | ShapeTuple _ \<Rightarrow> Inl (ValueError ''too many values to unpack (expected 2)''))"

definition parse_offset_vals :: "real list option \<Rightarrow> py_error + (real \<times> real)" where
  "parse_offset_vals offset_vals =
     (case offset_vals of
        None \<Rightarrow> Inr (0, 0)
      | Some [ny_off, nx_off] \<Rightarrow> Inr (ny_off, nx_off)
      | Some _ \<Rightarrow> Inl (ValueError ''offset_vals should have two values.''))"

definition isclose0 :: "real \<Rightarrow> bool" where
  "isclose0 d = (\<bar>d\<bar> \<le> 1 / 10 ^ 5)"

definition fshift ::
  "('a ndarray2 \<Rightarrow> real \<Rightarrow> real \<Rightarrow> 'a \<Rightarrow> 'a ndarray2) \<Rightarrow> 'a ndarray2 \<Rightarrow> real \<Rightarrow> real \<Rightarrow> 'a \<Rightarrow>
   'a ndarray2" where
  "fshift interp im delx dely cval =
     (if isclose0 delx \<and> isclose0 dely then im else interp im delx dely cval)"

definition pad_or_cut_to_size ::
  "('a ndarray2 \<Rightarrow> real \<Rightarrow> real \<Rightarrow> 'a \<Rightarrow> 'a ndarray2) \<Rightarrow> 'a::monoid_add ndarray2 \<Rightarrow> shape_arg \<Rightarrow> 'a \<Rightarrow>
   real list option \<Rightarrow> py_error + 'a ndarray2" where
  "pad_or_cut_to_size interp array new_shape fill_val offset_vals =
     (case parse_new_shape new_shape of
        Inl e \<Rightarrow> Inl e
      | Inr (ny_new, nx_new) \<Rightarrow>
          (let output = np_full ny_new nx_new (if fill_val \<noteq> 0 then 0 + fill_val else 0)
           in case parse_offset_vals offset_vals of
                Inl e \<Rightarrow> Inl e
              | Inr (ny_off, nx_off) \<Rightarrow>
                  (let (n0, n1) = window nx_new (nx array);
                       (m0, m1) = window ny_new (ny array)
                   in if nx_new \<ge> nx array \<and> ny_new \<ge> ny array then
                        (case set_slice2 output m0 m1 n0 n1 array of
                           Inl e \<Rightarrow> Inl e
                         | Inr output1 \<Rightarrow> Inr (fshift interp output1 nx_off ny_off fill_val))
                      else if nx_new \<le> nx array \<and> ny_new \<le> ny array then
                        (if nx_off \<noteq> 0 \<or> ny_off \<noteq> 0
                         then Inr (get_slice2 (fshift interp array nx_off ny_off fill_val) m0 m1 n0 n1)
                         else Inr (get_slice2 array m0 m1 n0 n1))
                      else if nx_new \<le> nx array \<and> ny_new \<ge> ny array then
                        (let array_temp = (if nx_off \<noteq> 0 then fshift interp array nx_off 0 fill_val
                                           else array)
                         in case set_slice2 output m0 m1 0 (nx output)
                                   (get_slice2 array_temp 0 (ny array_temp) n0 n1) of
                              Inl e \<Rightarrow> Inl e
                            | Inr output1 \<Rightarrow> Inr (fshift interp output1 0 ny_off fill_val))
                      else
                        (let array_temp = (if ny_off \<noteq> 0 then fshift interp array 0 ny_off fill_val
                                           else array)
                         in case set_slice2 output 0 (ny output) n0 n1
                                   (get_slice2 array_temp m0 m1 0 (nx array_temp)) of
                              Inl e \<Rightarrow> Inl e
                            | Inr output1 \<Rightarrow> Inr (fshift interp output1 nx_off 0 fill_val)))))"

definition example_array :: "real ndarray2" where
  "example_array = \<lparr>ny = 2, nx = 3, data = [[1, 2, 3], [4, 5, 6]]\<rparr>"

definition example_interp :: "real ndarray2 \<Rightarrow> real \<Rightarrow> real \<Rightarrow> real \<Rightarrow> real ndarray2" where
  "example_interp im delx dely cval = im"

section \<open>PSFs from coefficients\<close>

text \<open>
  Log records are the level and the message. A coordinate argument \<^verbatim>\<open>coord_vals\<close> is the pair
  of its x values and its y values; a single position is a pair of one-element lists.
\<close>

datatype level = INFO | WARNING

type_synonym log = "(level \<times> string) list"

type_synonym coords = "real list \<times> real list"

text \<open>A coefficient modification \<^verbatim>\<open>cf_mod\<close> is the Python integer \<^verbatim>\<open>0\<close> or an array.\<close>

datatype 'c cfmod = IntZero | Cube 'c

text \<open>\<^verbatim>\<open>psf_coeff_mod += cf_mod\<close>, starting from \<^verbatim>\<open>psf_coeff_mod = 0\<close>; adding the integer 0
  to an array leaves its values as they are.\<close>

fun add_cfmod :: "'c::plus cfmod \<Rightarrow> 'c cfmod \<Rightarrow> 'c cfmod" where
  "add_cfmod IntZero m = m"
| "add_cfmod (Cube a) IntZero = Cube a"
| "add_cfmod (Cube a) (Cube b) = Cube (a + b)"

text \<open>\<^verbatim>\<open>psf_coeff = psf_coeff + psf_coeff_mod\<close>.\<close>

fun apply_cfmod :: "'c::plus \<Rightarrow> 'c cfmod \<Rightarrow> 'c" where
  "apply_cfmod c IntZero = c"
| "apply_cfmod c (Cube m) = c + m"

text \<open>\<^verbatim>\<open>str.lower()\<close> on ASCII letters.\<close>

definition lower_char :: "char \<Rightarrow> char" where
  "lower_char c =
     (case map_of (zip ''ABCDEFGHIJKLMNOPQRSTUVWXYZ'' ''abcdefghijklmnopqrstuvwxyz'') c of
        Some l \<Rightarrow> l
      | None \<Rightarrow> c)"

definition lower :: "string \<Rightarrow> string" where
  "lower s = map lower_char s"

text \<open>
  The calls that leave the three source files, as parameters. \<open>'ap\<close> is the type of a SIAF
  aperture.
  \<^item> \<open>siaf apname\<close> is \<^verbatim>\<open>self.siaf[apname]\<close>, \<open>None\<close> when the lookup raises \<^verbatim>\<open>KeyError\<close>;
  \<^item> \<open>convert ap xy from to\<close> is \<^verbatim>\<open>siaf_ap.convert(x, y, from, to)\<close>;
  \<^item> \<open>field_coeff_func xgrid ygrid cf_fit xy psf_coeff\<close> is \<^verbatim>\<open>field_coeff_func\<close> followed by the
    resizing of its result to the shape of \<^verbatim>\<open>psf_coeff\<close> (lines 2780--2787 and 2862--2869);
  \<^item> \<open>jl_poly wfe_drift cf_fit lxmap psf_coeff\<close> is the evaluation of the drift fit with its
    reshapes and resizing (lines 2721--2730);
  \<^item> \<open>get_bar_offset\<close> is \<^verbatim>\<open>self.get_bar_offset()\<close>; \<open>bar_position ap bar_offset\<close> is the
    position along the bar in science pixels (lines 2835--2837);
  \<^item> \<open>mask_shift ap xy\<close> turns science pixels into mask offsets in arcsec (lines 2855--2860);
  \<^item> \<open>to_sci xy cframe\<close> is the conversion to science pixels inside \<^verbatim>\<open>_wfe_drift_key\<close> with
    its \<^verbatim>\<open>try\<close>/\<^verbatim>\<open>except\<close> (lines 2652--2669): the warnings it logs and the position, if one
    was found; \<open>mask_radius xy\<close> is the list of the radial offsets \<^verbatim>\<open>roff\<close> (lines 2676--2688);
  \<^item> \<open>add_field a i b\<close> is \<^verbatim>\<open>a[i] += b\<close> on arrays.
\<close>

record ('c, 'ap) ext =
  siaf :: "string \<Rightarrow> 'ap option"
  convert :: "'ap \<Rightarrow> coords \<Rightarrow> string \<Rightarrow> string \<Rightarrow> py_error + coords"
  field_coeff_func :: "'c dictval \<Rightarrow> 'c dictval \<Rightarrow> 'c dictval \<Rightarrow> coords \<Rightarrow> 'c \<Rightarrow> py_error + 'c"
  jl_poly :: "real \<Rightarrow> 'c dictval \<Rightarrow> 'c dictval \<Rightarrow> 'c \<Rightarrow> py_error + 'c"
  get_bar_offset :: real
  bar_position :: "'ap \<Rightarrow> real \<Rightarrow> coords"
  mask_shift :: "'ap \<Rightarrow> coords \<Rightarrow> coords"
  to_sci :: "coords \<Rightarrow> string \<Rightarrow> log \<times> coords option"
  mask_radius :: "coords \<Rightarrow> py_error + real list"
  add_field :: "'c \<Rightarrow> nat \<Rightarrow> 'c \<Rightarrow> py_error + 'c"

text \<open>\<^verbatim>\<open>self._psf_coeff_mod[key]\<close>.\<close>

definition dict_get :: "'c inst \<Rightarrow> string \<Rightarrow> py_error + 'c dictval" where
  "dict_get self key =
     (case priv_psf_coeff_mod self key of None \<Rightarrow> Inl (KeyError key) | Some v \<Rightarrow> Inr v)"

text \<open>\<^verbatim>\<open>siaf_ap = self.siaf[apname] if apname is not None else None\<close>.\<close>

definition get_siaf_ap :: "('c, 'ap) ext \<Rightarrow> 'c dictval \<Rightarrow> py_error + 'ap option" where
  "get_siaf_ap E apname =
     (case apname of
        DNone \<Rightarrow> Inr None
      | DStr s \<Rightarrow> (case siaf E s of None \<Rightarrow> Inl (KeyError s) | Some ap \<Rightarrow> Inr (Some ap))
      | DArr a \<Rightarrow> Inl (TypeError ''unhashable type''))"

subsection \<open>\<^verbatim>\<open>_coeff_mod_wfe_drift\<close> (lines 2701--2732)\<close>

text \<open>
  \<^verbatim>\<open>
      if wfe_drift==0:
          cf_mod = 0 # Don't modify coefficients
      elif (self._psf_coeff_mod[key] is None):
          _log.warning("You must run `gen_wfedrift_coeff` first before setting the wfe_drift parameter.")
          _log.warning("Will continue assuming `wfe_drift=0`.")
          cf_mod = 0
      else:
          psf_coeff     = self.psf_coeff
          cf_fit = self._psf_coeff_mod[key]
          lxmap  = self._psf_coeff_mod['wfe_drift_lxmap']
          (jl_poly, reshape, pad)
      return cf_mod
  \<close>
\<close>

definition coeff_mod_wfe_drift ::
  "('c, 'ap) ext \<Rightarrow> 'c inst \<Rightarrow> real \<Rightarrow> string \<Rightarrow> log \<times> (py_error + 'c cfmod)" where
  "coeff_mod_wfe_drift E self wfe_drift key =
     (if wfe_drift = 0 then ([], Inr IntZero)
      else
        (case dict_get self key of
           Inl e \<Rightarrow> ([], Inl e)
         | Inr DNone \<Rightarrow>
             ([(WARNING, ''You must run `gen_wfedrift_coeff` first before setting the wfe_drift parameter.''),
               (WARNING, ''Will continue assuming `wfe_drift=0`.'')],
              Inr IntZero)
         | Inr cf_fit \<Rightarrow>
             (case dict_get self ''wfe_drift_lxmap'' of
                Inl e \<Rightarrow> ([], Inl e)
              | Inr lxmap \<Rightarrow>
                  (case psf_coeff self of
                     None \<Rightarrow> ([], Inl (AttributeError ''NoneType object has no attribute shape''))
                   | Some c \<Rightarrow>
                       (case jl_poly E wfe_drift cf_fit lxmap c of
                          Inl e \<Rightarrow> ([], Inl e)
                        | Inr cf_mod \<Rightarrow> ([], Inr (Cube cf_mod)))))))"

subsection \<open>\<^verbatim>\<open>_coeff_mod_wfe_field\<close> (lines 2735--2789)\<close>

text \<open>
  \<^verbatim>\<open>
      v2 = v3 = None
      cf_mod = 0
      nfield = None
      psf_coeff     = self.psf_coeff
      cf_fit = self._psf_coeff_mod['si_field']
      v2grid  = self._psf_coeff_mod['si_field_v2grid']
      v3grid  = self._psf_coeff_mod['si_field_v3grid']
      apname  = self._psf_coeff_mod['si_feild_apname']
      siaf_ap = self.siaf[apname] if apname is not None else None
      if coord_vals is None:
          pass
      elif self._psf_coeff_mod['si_field'] is None:
          si_wfe_str = 'True' if self.include_si_wfe else 'False'
          _log.info(f"Skipping WFE field dependence: self._psf_coeff_mod['si_field']=None and self.include_si_wfe={si_wfe_str}")
          cf_mod = 0
      else:
          cframe = coord_frame.lower()
          if cframe=='tel':
              v2, v3 = coord_vals
              v2, v3 = (v2/60., v3/60.) # convert to arcmin
          elif cframe in ['det', 'sci', 'idl']:
              x = np.array(coord_vals[0])
              y = np.array(coord_vals[1])
              v2, v3 = siaf_ap.convert(x,y, cframe, 'tel')
          else:
              _log.warning("coord_frame setting '{}' not recognized.".format(coord_frame))
              _log.warning("`calc_psf_from_coeff` will continue with default PSF.")
      if (v2 is not None):
          nfield = np.size(v2)
          cf_mod = field_coeff_func(v2grid, v3grid, cf_fit, v2, v3)
          (pad)
      return cf_mod, nfield
  \<close>
\<close>

definition field_modification ::
  "('c, 'ap) ext \<Rightarrow> 'c inst \<Rightarrow> 'c dictval \<Rightarrow> 'c dictval \<Rightarrow> 'c dictval \<Rightarrow> coords \<Rightarrow>
   py_error + ('c cfmod \<times> nat option)" where
  "field_modification E self xgrid ygrid cf_fit xy =
     (case psf_coeff self of
        None \<Rightarrow> Inl (AttributeError ''NoneType object has no attribute shape'')
      | Some c \<Rightarrow>
          (case field_coeff_func E xgrid ygrid cf_fit xy c of
             Inl e \<Rightarrow> Inl e
           | Inr cf_mod \<Rightarrow> Inr (Cube cf_mod, Some (length (fst xy)))))"

definition coeff_mod_wfe_field ::
  "('c, 'ap) ext \<Rightarrow> 'c inst \<Rightarrow> coords option \<Rightarrow> string \<Rightarrow>
   log \<times> (py_error + ('c cfmod \<times> nat option))" where
  "coeff_mod_wfe_field E self coord_vals coord_frame =
     (case dict_get self ''si_field'' of
        Inl e \<Rightarrow> ([], Inl e)
      | Inr cf_fit \<Rightarrow>
     (case dict_get self ''si_field_v2grid'' of
        Inl e \<Rightarrow> ([], Inl e)
      | Inr v2grid \<Rightarrow>
     (case dict_get self ''si_field_v3grid'' of
        Inl e \<Rightarrow> ([], Inl e)
      | Inr v3grid \<Rightarrow>
     (case dict_get self ''si_feild_apname'' of
        Inl e \<Rightarrow> ([], Inl e)
      | Inr apname \<Rightarrow>
     (case get_siaf_ap E apname of
        Inl e \<Rightarrow> ([], Inl e)
      | Inr siaf_ap \<Rightarrow>
     (case coord_vals of
        None \<Rightarrow> ([], Inr (IntZero, None))
      | Some cv \<Rightarrow>
          (if cf_fit = DNone then
             ([(INFO, ''Skipping WFE field dependence: self._psf_coeff_mod['' @ [CHR 0x27] @ ''si_field''
                       @ [CHR 0x27] @ '']=None and self.include_si_wfe=''
                       @ (if include_si_wfe self then ''True'' else ''False''))],
              Inr (IntZero, None))
           else
             (let cframe = lower coord_frame
              in if cframe = ''tel'' then
                   ([], field_modification E self v2grid v3grid cf_fit
                          (map (\<lambda>v. v / 60) (fst cv), map (\<lambda>v. v / 60) (snd cv)))
                 else if cframe \<in> set [''det'', ''sci'', ''idl''] then
                   (case siaf_ap of
                      None \<Rightarrow> ([], Inl (AttributeError ''NoneType object has no attribute convert''))
                    | Some ap \<Rightarrow>
                        (case convert E ap cv cframe ''tel'' of
                           Inl e \<Rightarrow> ([], Inl e)
                         | Inr v23 \<Rightarrow> ([], field_modification E self v2grid v3grid cf_fit v23)))
                 else
                   ([(WARNING, ''coord_frame setting '' @ [CHR 0x27] @ coord_frame @ [CHR 0x27]
                               @ '' not recognized.''),
                     (WARNING, ''`calc_psf_from_coeff` will continue with default PSF.'')],
                    Inr (IntZero, None))))))))))"

subsection \<open>\<^verbatim>\<open>_coeff_mod_wfe_mask\<close> (lines 2791--2871)\<close>

text \<open>
  \<^verbatim>\<open>
      xsci = ysci = None
      cf_mod = 0
      nfield = None
      cf_fit = self._psf_coeff_mod['si_mask']
      xgrid  = self._psf_coeff_mod['si_mask_xgrid']
      ygrid  = self._psf_coeff_mod['si_mask_ygrid']
      apname = self._psf_coeff_mod['si_mask_apname']
      siaf_ap = self.siaf[apname] if apname is not None else None
      if (coord_vals is not None) and (cf_fit is None):
          _log.info("You must run `gen_wfemask_coeff` first before setting the coord_vals parameter for masked focal planes.")
          _log.info("`calc_psf_from_coeff` will continue without mask field dependency.")
      elif (coord_vals is None) and (self.name=='NIRCam') and (self.image_mask[-1]=='B'):
          bar_offset = self.get_bar_offset()
          if (bar_offset != 0) and (cf_fit is None):
              _log.info("You must run `gen_wfemask_coeff` to obtain bar offset PSFs.")
              _log.info("`calc_psf_from_coeff` will continue assuming bar_offset=0.")
          else:
              nfield = 1
              bar_offset_pix = bar_offset / siaf_ap.XSciScale
              xsci = siaf_ap.XSciRef + bar_offset_pix
              ysci = siaf_ap.YSciRef
      elif (coord_vals is not None):
          cframe = coord_frame.lower()
          if cframe=='sci':
              xsci, ysci = coord_vals  # pixels
          elif cframe in ['det', 'tel', 'idl']:
              x = np.array(coord_vals[0])
              y = np.array(coord_vals[1])
              xsci, ysci = siaf_ap.convert(x,y, cframe, 'sci')
          else:
              _log.warning("coord_frame setting '{}' not recognized.".format(coord_frame))
              _log.warning("`calc_psf_from_coeff` will continue with default PSF.")
      if (xsci is not None):
          nfield = np.size(xsci)
          (xoff, yoff from siaf_ap)
          cf_mod = field_coeff_func(xgrid, ygrid, cf_fit, xoff, yoff)
          (pad)
      return cf_mod, nfield
  \<close>
\<close>

definition mask_modification ::
  "('c, 'ap) ext \<Rightarrow> 'c inst \<Rightarrow> 'ap option \<Rightarrow> 'c dictval \<Rightarrow> 'c dictval \<Rightarrow> 'c dictval \<Rightarrow> coords \<Rightarrow>
   py_error + ('c cfmod \<times> nat option)" where
  "mask_modification E self siaf_ap xgrid ygrid cf_fit xysci =
     (case siaf_ap of
        None \<Rightarrow> Inl (AttributeError ''NoneType object has no attribute XSciRef'')
      | Some ap \<Rightarrow> field_modification E self xgrid ygrid cf_fit (mask_shift E ap xysci))"

definition coeff_mod_wfe_mask ::
  "('c, 'ap) ext \<Rightarrow> 'c inst \<Rightarrow> coords option \<Rightarrow> string \<Rightarrow>
   log \<times> (py_error + ('c cfmod \<times> nat option))" where
  "coeff_mod_wfe_mask E self coord_vals coord_frame =
     (case dict_get self ''si_mask'' of
        Inl e \<Rightarrow> ([], Inl e)
      | Inr cf_fit \<Rightarrow>
     (case dict_get self ''si_mask_xgrid'' of
        Inl e \<Rightarrow> ([], Inl e)
      | Inr xgrid \<Rightarrow>
     (case dict_get self ''si_mask_ygrid'' of
        Inl e \<Rightarrow> ([], Inl e)
      | Inr ygrid \<Rightarrow>
     (case dict_get self ''si_mask_apname'' of
        Inl e \<Rightarrow> ([], Inl e)
      | Inr apname \<Rightarrow>
     (case get_siaf_ap E apname of
        Inl e \<Rightarrow> ([], Inl e)
      | Inr siaf_ap \<Rightarrow>
     (case coord_vals of
        Some cv \<Rightarrow>
          (if cf_fit = DNone then
             ([(INFO, ''You must run `gen_wfemask_coeff` first before setting the coord_vals parameter for masked focal planes.''),
               (INFO, ''`calc_psf_from_coeff` will continue without mask field dependency.'')],
              Inr (IntZero, None))
           else
             (let cframe = lower coord_frame
              in if cframe = ''sci'' then
                   ([], mask_modification E self siaf_ap xgrid ygrid cf_fit cv)
                 else if cframe \<in> set [''det'', ''tel'', ''idl''] then
                   (case siaf_ap of
                      None \<Rightarrow> ([], Inl (AttributeError ''NoneType object has no attribute convert''))
                    | Some ap \<Rightarrow>
                        (case convert E ap cv cframe ''sci'' of
                           Inl e \<Rightarrow> ([], Inl e)
                         | Inr xysci \<Rightarrow> ([], mask_modification E self siaf_ap xgrid ygrid cf_fit xysci)))
                 else
                   ([(WARNING, ''coord_frame setting '' @ [CHR 0x27] @ coord_frame @ [CHR 0x27]
                               @ '' not recognized.''),
                     (WARNING, ''`calc_psf_from_coeff` will continue with default PSF.'')],
                    Inr (IntZero, None))))
      | None \<Rightarrow>
          (if name self = ''NIRCam'' then
             (case image_mask self of
                None \<Rightarrow> ([], Inl (TypeError ''NoneType object is not subscriptable''))
              | Some m \<Rightarrow>
                  (if m = [] then ([], Inl IndexError)
                   else if last m = CHR ''B'' then
                     (let bar_offset = get_bar_offset E
                      in if bar_offset \<noteq> 0 \<and> cf_fit = DNone then
                           ([(INFO, ''You must run `gen_wfemask_coeff` to obtain bar offset PSFs.''),
                             (INFO, ''`calc_psf_from_coeff` will continue assuming bar_offset=0.'')],
                            Inr (IntZero, None))
                         else
                           (case siaf_ap of
                              None \<Rightarrow> ([], Inl (AttributeError ''NoneType object has no attribute XSciScale''))
                            | Some ap \<Rightarrow>
                                ([], mask_modification E self siaf_ap xgrid ygrid cf_fit
                                       (bar_position E ap bar_offset))))
                   else ([], Inr (IntZero, None))))
           else ([], Inr (IntZero, None)))))))))"

subsection \<open>\<^verbatim>\<open>_wfe_drift_key\<close> (lines 2637--2698)\<close>

text \<open>
  \<^verbatim>\<open>
      xsci = ysci = None
      if coord_vals is None:
          return 'wfe_drift'
      else:
          cframe = coord_frame.lower()
          if cframe=='sci':
              xsci, ysci = coord_vals  # pixels
          elif cframe in ['det', 'tel', 'idl']:
              (conversion to science pixels, with try/except)
          else:
              return 'wfe_drift'
      if (xsci is not None):
          (radial offsets roff)
          res = []
          for r in roff:
              key = 'wfe_drift' if r<0.1 else 'wfe_drift_off'
              res.append(key)
          return res
      else:
          return 'wfe_drift'
  \<close>
  The caller only passes the result to \<^verbatim>\<open>np.unique\<close> and indexes it when there is more than
  one distinct key, so the single string is modelled as a list of one key.
\<close>

definition keys_of_position ::
  "('c, 'ap) ext \<Rightarrow> log \<Rightarrow> coords option \<Rightarrow> log \<times> (py_error + string list)" where
  "keys_of_position E lg xysci =
     (case xysci of
        None \<Rightarrow> (lg, Inr [''wfe_drift''])
      | Some xy \<Rightarrow>
          (case mask_radius E xy of
             Inl e \<Rightarrow> (lg, Inl e)
           | Inr roff \<Rightarrow>
               (lg, Inr (map (\<lambda>r. if r < 0.1 then ''wfe_drift'' else ''wfe_drift_off'') roff))))"

definition wfe_drift_key ::
  "('c, 'ap) ext \<Rightarrow> coords option \<Rightarrow> string \<Rightarrow> log \<times> (py_error + string list)" where
  "wfe_drift_key E coord_vals coord_frame =
     (case coord_vals of
        None \<Rightarrow> ([], Inr [''wfe_drift''])
      | Some cv \<Rightarrow>
          (let cframe = lower coord_frame
           in if cframe = ''sci'' then keys_of_position E [] (Some cv)
              else if cframe \<in> set [''det'', ''tel'', ''idl''] then
                (case to_sci E cv cframe of (lg, xysci) \<Rightarrow> keys_of_position E lg xysci)
              else ([], Inr [''wfe_drift''])))"

text \<open>\<^verbatim>\<open>np.unique\<close> of a list of the two keys: the distinct keys in ascending order.\<close>

definition np_unique_keys :: "string list \<Rightarrow> string list" where
  "np_unique_keys keys =
     (if ''wfe_drift'' \<in> set keys then [''wfe_drift''] else [])
     @ (if ''wfe_drift_off'' \<in> set keys then [''wfe_drift_off''] else [])"

subsection \<open>\<^verbatim>\<open>_calc_psf_from_coeff\<close> (lines 2480--2635)\<close>

text \<open>
  \<^verbatim>\<open>
      cf_mod_list = []
      for key in ukeys:
          cf_mod = _coeff_mod_wfe_drift(self, wfe_drift, key=key)
          cf_mod_list.append(cf_mod)
      for i in range(nfield):
          ind = np.where(ukeys==wfe_drift_keys[i])[0][0]
          cf_mod = cf_mod_list[ind]
          psf_coeff_mod[i] += cf_mod
  \<close>
\<close>

fun drift_mod_list ::
  "('c, 'ap) ext \<Rightarrow> 'c inst \<Rightarrow> real \<Rightarrow> string list \<Rightarrow> log \<times> (py_error + 'c cfmod list)" where
  "drift_mod_list E self wfe_drift [] = ([], Inr [])"
| "drift_mod_list E self wfe_drift (key # rest) =
     (case coeff_mod_wfe_drift E self wfe_drift key of
        (lg, Inl e) \<Rightarrow> (lg, Inl e)
      | (lg, Inr cf_mod) \<Rightarrow>
          (case drift_mod_list E self wfe_drift rest of
             (lg', Inl e) \<Rightarrow> (lg @ lg', Inl e)
           | (lg', Inr cf_mods) \<Rightarrow> (lg @ lg', Inr (cf_mod # cf_mods))))"

fun first_index :: "'k list \<Rightarrow> 'k \<Rightarrow> nat" where
  "first_index [] k = 0"
| "first_index (x # xs) k = (if x = k then 0 else Suc (first_index xs k))"

fun add_per_field ::
  "('c, 'ap) ext \<Rightarrow> string list \<Rightarrow> 'c cfmod list \<Rightarrow> string list \<Rightarrow> 'c cfmod \<Rightarrow> nat list \<Rightarrow>
   py_error + 'c cfmod" where
  "add_per_field E ukeys cf_mod_list wfe_drift_keys psf_coeff_mod [] = Inr psf_coeff_mod"
| "add_per_field E ukeys cf_mod_list wfe_drift_keys psf_coeff_mod (i # rest) =
     (if i \<ge> length wfe_drift_keys then Inl IndexError
      else
        (let ind = first_index ukeys (wfe_drift_keys ! i);
             cf_mod = cf_mod_list ! ind
         in case psf_coeff_mod of
              IntZero \<Rightarrow> Inl (TypeError ''int object is not subscriptable'')
            | Cube a \<Rightarrow>
                (case cf_mod of
                   IntZero \<Rightarrow> add_per_field E ukeys cf_mod_list wfe_drift_keys (Cube a) rest
                 | Cube b \<Rightarrow>
                     (case add_field E a i b of
                        Inl e \<Rightarrow> Inl e
                      | Inr a' \<Rightarrow> add_per_field E ukeys cf_mod_list wfe_drift_keys (Cube a') rest))))"

text \<open>
  Lines 2558--2578: the drift modification.
  \<^verbatim>\<open>
      assert wfe_drift>=0, '`wfe_drift should not be negative'
      wfe_drift_keys = _wfe_drift_key(self, coord_vals, coord_frame)
      ukeys = np.unique(wfe_drift_keys)
      nkeys = len(ukeys)
      if nkeys==1:
          psf_coeff_mod += _coeff_mod_wfe_drift(self, wfe_drift, key=ukeys[0])
      else:
          (the two loops above)
      psf_coeff = psf_coeff + psf_coeff_mod
  \<close>
  The result is the drift term in the first case, and the corrected cube.
\<close>

definition apply_wfe_drift ::
  "('c, 'ap) ext \<Rightarrow> 'c::plus inst \<Rightarrow> 'c \<Rightarrow> 'c cfmod \<Rightarrow> nat \<Rightarrow> real \<Rightarrow> coords option \<Rightarrow> string \<Rightarrow>
   log \<times> (py_error + 'c)" where
  "apply_wfe_drift E self psf_coeff_val psf_coeff_mod nfield wfe_drift coord_vals coord_frame =
     (if \<not> wfe_drift \<ge> 0 then ([], Inl (AssertionError ''`wfe_drift should not be negative''))
      else
        (case wfe_drift_key E coord_vals coord_frame of
           (lg, Inl e) \<Rightarrow> (lg, Inl e)
         | (lg, Inr wfe_drift_keys) \<Rightarrow>
             (let ukeys = np_unique_keys wfe_drift_keys
              in if length ukeys = 1 then
                   (case coeff_mod_wfe_drift E self wfe_drift (ukeys ! 0) of
                      (lg', Inl e) \<Rightarrow> (lg @ lg', Inl e)
                    | (lg', Inr cf_mod) \<Rightarrow>
                        (lg @ lg', Inr (apply_cfmod psf_coeff_val (add_cfmod psf_coeff_mod cf_mod))))
                 else
                   (case drift_mod_list E self wfe_drift ukeys of
                      (lg', Inl e) \<Rightarrow> (lg @ lg', Inl e)
                    | (lg', Inr cf_mod_list) \<Rightarrow>
                        (case add_per_field E ukeys cf_mod_list wfe_drift_keys psf_coeff_mod
                                [0..<nfield] of
                           Inl e \<Rightarrow> (lg @ lg', Inl e)
                         | Inr psf_coeff_mod' \<Rightarrow>
                             (lg @ lg', Inr (apply_cfmod psf_coeff_val psf_coeff_mod')))))))"

text \<open>
  \<^verbatim>\<open>
      psf_coeff_hdr = self.psf_coeff_header
      psf_coeff     = self.psf_coeff
      if psf_coeff is None:
          _log.warning("You must first run `gen_psf_coeff` calculating PSFs.")
          return
      is_spec = False
      if (self.name=='NIRCam') or (self.name=='NIRISS'):
          is_spec = True if self.is_grism else False
      elif (self.name=='MIRI') or (self.name=='NIRSpec'):
          is_spec = True if self.is_slitspec else False
      psf_coeff_mod = 0
      if wfe_drift is None:
          wfe_drift = 0
      nfield = None
      if self.image_mask is None:
          cf_mod, nfield = _coeff_mod_wfe_field(self, coord_vals, coord_frame)
          psf_coeff_mod += cf_mod
      nfield = 1 if nfield is None else nfield
      if self.image_mask is not None:
          cf_mod, nfield_mask = _coeff_mod_wfe_mask(self, coord_vals, coord_frame)
          psf_coeff_mod += cf_mod
      nfield = nfield if nfield_mask is None else nfield_mask
      (drift modification)
      (images from the corrected coefficients, lines 2581--2635)
      return output
  \<close>
  The name \<^verbatim>\<open>nfield_mask\<close> is assigned only in the branch for an image mask, so reading it
  without one raises \<^verbatim>\<open>UnboundLocalError\<close>. The last part, which calls
  \<^verbatim>\<open>gen_image_from_coeff\<close> and packs the images, is the parameter \<open>render\<close>: it gets the
  corrected cube, \<^verbatim>\<open>nfield\<close>, the drift it writes to the header, \<^verbatim>\<open>is_spec\<close> and the
  caller's arguments. \<open>None\<close> is the bare \<^verbatim>\<open>return\<close>.
\<close>

definition is_spec :: "'c inst \<Rightarrow> bool" where
  "is_spec self =
     (if name self = ''NIRCam'' \<or> name self = ''NIRISS'' then NIRCam_ext_is_grism self
      else if name self = ''MIRI'' \<or> name self = ''NIRSpec'' then MIRI_ext_is_slitspec self
      else False)"

definition calc_psf_from_coeff ::
  "('c, 'ap) ext \<Rightarrow>
   ('c \<Rightarrow> nat \<Rightarrow> real \<Rightarrow> bool \<Rightarrow> 'sp \<Rightarrow> bool \<Rightarrow> bool \<Rightarrow> coords option \<Rightarrow> string \<Rightarrow> py_error + 'out) \<Rightarrow>
   'c::plus inst \<Rightarrow> 'sp \<Rightarrow> bool \<Rightarrow> real option \<Rightarrow> coords option \<Rightarrow> string \<Rightarrow> bool \<Rightarrow>
   log \<times> (py_error + 'out option)" where
  "calc_psf_from_coeff E render self sp return_oversample wfe_drift_arg coord_vals coord_frame return_hdul =
     (case psf_coeff self of
        None \<Rightarrow> ([(WARNING, ''You must first run `gen_psf_coeff` calculating PSFs.'')], Inr None)
      | Some psf_coeff_val \<Rightarrow>
          (let wfe_drift = (case wfe_drift_arg of None \<Rightarrow> 0 | Some d \<Rightarrow> d)
           in case image_mask self of
                None \<Rightarrow>
                  (case coeff_mod_wfe_field E self coord_vals coord_frame of
                     (lg, Inl e) \<Rightarrow> (lg, Inl e)
                   | (lg, Inr (cf_mod, nfield)) \<Rightarrow> (lg, Inl (UnboundLocalError ''nfield_mask'')))
              | Some m \<Rightarrow>
                  (case coeff_mod_wfe_mask E self coord_vals coord_frame of
                     (lg, Inl e) \<Rightarrow> (lg, Inl e)
                   | (lg, Inr (cf_mod, nfield_mask)) \<Rightarrow>
                       (let psf_coeff_mod = add_cfmod IntZero cf_mod;
                            nfield = (case nfield_mask of None \<Rightarrow> 1 | Some n \<Rightarrow> n)
                        in case apply_wfe_drift E self psf_coeff_val psf_coeff_mod nfield wfe_drift
                                  coord_vals coord_frame of
                             (lg', Inl e) \<Rightarrow> (lg @ lg', Inl e)
                           | (lg', Inr psf_coeff') \<Rightarrow>
                               (case render psf_coeff' nfield wfe_drift (is_spec self) sp
                                       return_oversample return_hdul coord_vals coord_frame of
                                  Inl e \<Rightarrow> (lg @ lg', Inl e)
                                | Inr output \<Rightarrow> (lg @ lg', Inr (Some output)))))))"

text \<open>
  Stand-ins for the external calls in the concrete instances: there is no SIAF aperture, the
  interpolations return the instrument's cube, and the images are the corrected cube with the
  drift that goes to the header. \<open>example_nircam_imaging\<close> is a \<^verbatim>\<open>NIRCam_ext\<close> without pupil
  or image mask as \<^verbatim>\<open>_init_inst\<close> leaves it, after a coefficient cube was stored.
\<close>

definition example_ext :: "(real, unit) ext" where
  "example_ext =
     \<lparr>siaf = (\<lambda>apname. None),
      convert = (\<lambda>ap xy frame_from frame_to. Inr xy),
      field_coeff_func = (\<lambda>xgrid ygrid cf_fit xy c. Inr c),
      jl_poly = (\<lambda>wfe_drift cf_fit lxmap c. Inr c),
      get_bar_offset = 0,
      bar_position = (\<lambda>ap bar_offset. ([0], [0])),
      mask_shift = (\<lambda>ap xy. xy),
      to_sci = (\<lambda>xy cframe. ([], None)),
      mask_radius = (\<lambda>xy. Inr (map (\<lambda>v. \<bar>v\<bar>) (fst xy))),
      add_field = (\<lambda>a i b. Inr (a + b))\<rparr>"

definition example_render ::
  "real \<Rightarrow> nat \<Rightarrow> real \<Rightarrow> bool \<Rightarrow> unit \<Rightarrow> bool \<Rightarrow> bool \<Rightarrow> coords option \<Rightarrow> string \<Rightarrow> py_error + (real \<times> real)" where
  "example_render c nfield wfe_drift spec sp return_oversample return_hdul coord_vals coord_frame =
     Inr (c, wfe_drift)"

definition example_nircam_imaging :: "real inst" where
  "example_nircam_imaging =
     (init_inst (base_instrument ''NIRCam'') None None None None)\<lparr>psf_coeff := Some 1\<rparr>"

text \<open>The coronagraphic \<^verbatim>\<open>MIRI_ext\<close> from above after a drift model was stored.\<close>

definition example_miri_with_drift :: "real inst" where
  "example_miri_with_drift = example_miri_coron\<lparr>priv_psf_coeff_mod :=
      (priv_psf_coeff_mod example_miri_coron)(''wfe_drift'' \<mapsto> DArr 7, ''wfe_drift_lxmap'' \<mapsto> DArr 1)\<rparr>"

section \<open>Verified properties\<close>

subsection \<open>Helper lemmas\<close>

lemma py_eq_None [simp]: "py_eq x PNone = (x = PNone)" "py_eq PNone x = (x = PNone)"
  by (cases x; simp)+

lemma py_index_None_less: "py_in PNone xs \<Longrightarrow> py_index_None xs < length xs"
  by (induction xs) (auto simp: py_in_def)

lemma py_index_None_nth: "py_in PNone xs \<Longrightarrow> xs ! py_index_None xs = PNone"
  by (induction xs) (auto simp: py_in_def)

subsection \<open>Default polynomial degree\<close>

text \<open>
  C2 (as stated, refuted). The claim gives \<^verbatim>\<open>NIRCam_ext\<close> the default degree 7 in normal mode.
  A freshly initialised \<^verbatim>\<open>NIRCam_ext\<close> has \<^verbatim>\<open>_ndeg = None\<close> and is in normal mode
  (\<^verbatim>\<open>quick\<close> is false), and its \<^verbatim>\<open>ndeg\<close> is 9.
\<close>

theorem NIRCam_ndeg_normal_counterexample:
  "priv_ndeg (init_inst (base_instrument ''NIRCam'') None None None None) = None
   \<and> \<not> NIRCam_ext_quick (init_inst (base_instrument ''NIRCam'') None None None None)
   \<and> NIRCam_ext_ndeg (init_inst (base_instrument ''NIRCam'') None None None None) \<noteq> 7"
  by (simp add: init_inst_def base_instrument_def Let_def NIRCam_ext_ndeg_def NIRCam_ext_quick_def)

text \<open>
  C2 (amended). When \<^verbatim>\<open>_ndeg\<close> is unset, \<^verbatim>\<open>NIRCam_ext.ndeg\<close> is 7 in quick mode and 9 in
  normal mode, \<^verbatim>\<open>MIRI_ext.ndeg\<close> is 4 in quick mode and 7 in normal mode; a set \<^verbatim>\<open>_ndeg\<close>
  is returned as it is; in both classes the value does not depend on \<^verbatim>\<open>use_legendre\<close>.
\<close>

theorem ndeg_default:
  "NIRCam_ext_ndeg self =
     (case priv_ndeg self of Some n \<Rightarrow> n | None \<Rightarrow> if NIRCam_ext_quick self then 7 else 9)
   \<and> MIRI_ext_ndeg self =
     (case priv_ndeg self of Some n \<Rightarrow> n | None \<Rightarrow> if MIRI_ext_quick self then 4 else 7)
   \<and> NIRCam_ext_ndeg (self\<lparr>use_legendre := b\<rparr>) = NIRCam_ext_ndeg self
   \<and> MIRI_ext_ndeg (self\<lparr>use_legendre := b\<rparr>) = MIRI_ext_ndeg self"
  by (simp add: NIRCam_ext_ndeg_def MIRI_ext_ndeg_def NIRCam_ext_quick_def MIRI_ext_quick_def
           split: option.splits)

theorem ndeg_default_witness:
  "NIRCam_ext_ndeg (init_inst (base_instrument ''NIRCam'') None None None None) = 9
   \<and> NIRCam_ext_ndeg ((init_inst (base_instrument ''NIRCam'') None None None None)\<lparr>priv_quick := Some True\<rparr>) = 7
   \<and> MIRI_ext_ndeg (init_inst (base_instrument ''MIRI'') None None None None) = 4
   \<and> MIRI_ext_ndeg ((init_inst (base_instrument ''MIRI'') None None None None)\<lparr>priv_quick := Some False\<rparr>) = 7"
  using ndeg_default [of "init_inst (base_instrument ''NIRCam'') None None None None"]
        ndeg_default [of "(init_inst (base_instrument ''NIRCam'') None None None None)\<lparr>priv_quick := Some True\<rparr>"]
        ndeg_default [of "init_inst (base_instrument ''MIRI'') None None None None"]
        ndeg_default [of "(init_inst (base_instrument ''MIRI'') None None None None)\<lparr>priv_quick := Some False\<rparr>"]
  by (simp add: init_inst_def base_instrument_def Let_def NIRCam_ext_quick_def MIRI_ext_quick_def)

subsection \<open>\<^verbatim>\<open>_check_list\<close> changes the caller's list\<close>

text \<open>
  C10. When \<^verbatim>\<open>_check_list\<close> rejects a value and the list of allowed values contains
  \<^verbatim>\<open>None\<close>, the list the caller passed is changed in place before \<^verbatim>\<open>ValueError\<close> is
  raised: its first \<^verbatim>\<open>None\<close> element becomes the string \<^verbatim>\<open>'None'\<close>, so the list after the call
  differs from the list before. A list \<^verbatim>\<open>[True, False]\<close>, as the setters of \<^verbatim>\<open>quick\<close> and
  \<^verbatim>\<open>ND_acq\<close> build for every call, comes back unchanged.
\<close>

theorem check_list_rejection_mutates:
  assumes "\<not> py_in v temp_list" and "py_in PNone temp_list"
  shows "check_list v temp_list var_name =
           (temp_list[py_index_None temp_list := PStr ''None''],
            Inl (ValueError (check_list_msg v (temp_list[py_index_None temp_list := PStr ''None'']) var_name)))
         \<and> py_index_None temp_list < length temp_list
         \<and> temp_list ! py_index_None temp_list = PNone
         \<and> fst (check_list v temp_list var_name) \<noteq> temp_list
         \<and> fst (check_list v [PBool True, PBool False] var_name) = [PBool True, PBool False]"
proof -
  let ?i = "py_index_None temp_list"
  have i: "?i < length temp_list" and n: "temp_list ! ?i = PNone"
    using assms(2) by (simp_all add: py_index_None_less py_index_None_nth)
  have "temp_list[?i := PStr ''None''] ! ?i = PStr ''None''" using i by simp
  then have neq: "temp_list[?i := PStr ''None''] \<noteq> temp_list" using n by auto
  have fresh: "fst (check_list v [PBool True, PBool False] var_name) = [PBool True, PBool False]"
    by (simp add: check_list_def py_in_def Let_def)
  show ?thesis using assms i n neq fresh by (simp add: check_list_def Let_def)
qed

theorem check_list_rejection_mutates_witness:
  "\<not> py_in (PInt 3) [PStr ''A'', PNone, PNone] \<and> py_in PNone [PStr ''A'', PNone, PNone]
   \<and> check_list (PInt 3) [PStr ''A'', PNone, PNone] (Some ''mask'') =
     ([PStr ''A'', PStr ''None'', PNone],
      Inl (ValueError (check_list_msg (PInt 3) [PStr ''A'', PStr ''None'', PNone] (Some ''mask''))))"
  using check_list_rejection_mutates [of "PInt 3" "[PStr ''A'', PNone, PNone]" "Some ''mask''"]
  by (simp add: py_in_def)

subsection \<open>Field of view during the drift sweep\<close>

lemmas example_inst_defs =
  example_miri_coron_def example_nircam_bar_def init_inst_def base_instrument_def
  is_coron_def MIRI_ext_is_coron_def NIRCam_ext_is_coron_def NIRCam_ext_is_lyot_def oversample_def








subsection \<open>Residuals of the correction models\<close>










text \<open>
  For the bar mask of \<^verbatim>\<open>NIRCam_ext\<close> the last grid position, whose cube is subtracted, is
  the offset \<open>(8, 0)\<close>; the offset \<open>(0, 0)\<close> is at index 94 and keeps a residual.
\<close>

lemma wfemask_bar_origin_residual:
  "(case wfemask_residuals example_gen_shift example_nircam_bar of
      Inr (g, r) \<Rightarrow> xy_list g ! 94 = (0, 0) \<and> r ! 94 = -8 \<and> last (xy_list g) = (8, 0)
    | Inl e \<Rightarrow> False)"
  by (simp add: example_inst_defs wfemask_residuals_def gen_mask_grid_def Let_def
      meshgrid_pairs_def example_gen_shift_def subtract_last_def)



















subsection \<open>Decomposition of a wavefront drift\<close>

lemma drift_remainder_positive:
  "0 < d \<Longrightarrow> 0 < d^2 - (if \<bar>d\<bar> > 2 then 1 else 0 :: real)^2"
proof (cases "\<bar>d\<bar> > 2")
  case True
  assume "0 < d"
  with True have "2 < d" by simp
  then have "2 * 2 < d * d" by (intro mult_strict_mono) auto
  then show ?thesis using True by (simp add: power2_eq_square)
next
  case False
  assume "0 < d"
  then show ?thesis using False by simp
qed

text \<open>
  For a positive drift the function does what C6 describes: 1 nm for the IEC term above 2 nm,
  the remaining variance split 80\%/20\%, and a 14-day (20160 min) \<^verbatim>\<open>BOL\<close> thermal slew
  scaled by \<open>therm/24\<close>. The thermal term of a positive drift is never zero, so the elapsed
  time is never set to zero.
\<close>

lemma drift_opd_positive:
  assumes "0 < d"
  shows "drift_opd d opd0 =
     \<lparr>therm = sqrt (0.2 * (d^2 - (if d > 2 then 1 else 0)^2)),
      frill = sqrt (0.8 * (d^2 - (if d > 2 then 1 else 0)^2)),
      iec = (if d > 2 then 1 else 0),
      opd = opd0 @ [Apply_iec_drift (if d > 2 then 1 else 0),
                    Apply_frill_drift (sqrt (0.8 * (d^2 - (if d > 2 then 1 else 0)^2))),
                    Thermal_slew 20160 ''BOL'' (sqrt (0.2 * (d^2 - (if d > 2 then 1 else 0)^2)) / 24)]\<rparr>"
proof -
  have "0 < d^2 - (if \<bar>d\<bar> > 2 then 1 else 0 :: real)^2"
    using assms by (rule drift_remainder_positive)
  then have "sqrt (0.2 * (d^2 - (if \<bar>d\<bar> > 2 then 1 else 0 :: real)^2)) \<noteq> 0" by simp
  then show ?thesis using assms by (auto simp: drift_opd_def Let_def)
qed

text \<open>
  C6 (the code at the failing input). A drift that is not positive does not pass the guard
  \<^verbatim>\<open>if (wfe_drift > 0)\<close>: the three terms are 0 and no operation is applied to the OPD. The
  branch that negates the terms of a negative drift is inside the guard and is never run. At
  \<open>d = -5\<close> the claim gives \<open>iec = -1\<close> and \<open>frill = -sqrt (0.8 * 24)\<close>.
\<close>

theorem drift_opd_nonpositive:
  "d \<le> 0 \<Longrightarrow> drift_opd d opd0 = \<lparr>therm = 0, frill = 0, iec = 0, opd = opd0\<rparr>"
  by (simp add: drift_opd_def)

theorem drift_opd_nonpositive_witness:
  "drift_opd (- 5) [] = \<lparr>therm = 0, frill = 0, iec = 0, opd = []\<rparr>
   \<and> iec (drift_opd (- 5) []) \<noteq> - 1
   \<and> frill (drift_opd (- 5) []) \<noteq> - sqrt (0.8 * ((- 5)^2 - 1^2))
   \<and> therm (drift_opd (- 5) []) \<noteq> - sqrt (0.2 * ((- 5)^2 - 1^2))"
  using drift_opd_nonpositive [of "- 5" "[]"] by simp

subsection \<open>Snapping of small values in the coordinate conversions\<close>

lemma snapped_snap_scalar: "np_size v = 1 \<Longrightarrow> snapped (snap_scalar v)"
proof (cases v)
  case (Scalar a)
  then show ?thesis by simp
next
  case (Arr xs)
  assume "np_size v = 1"
  with Arr show ?thesis by (cases xs) auto
qed

lemma snapped_snap_elements: "np_size v \<noteq> 1 \<Longrightarrow> snapped (snap_elements v)"
  by (cases v) (auto simp: snap_array_def list_all_iff)

lemma broadcast2_size:
  "broadcast2 f a b = Inr x \<Longrightarrow> broadcast2 g a b = Inr y \<Longrightarrow> np_size y = np_size x"
  by (cases a; cases b) (auto split: if_splits)

text \<open>Every value that \<^verbatim>\<open>rtheta_to_xy\<close> returns is snapped, for scalars and for arrays.\<close>

lemma rtheta_to_xy_snapped:
  assumes "rtheta_to_xy r theta = Inr (x, y)"
  shows "snapped x \<and> snapped y"
  using assms
  by (auto simp: rtheta_to_xy_def split: sum.splits if_splits
      dest: broadcast2_size intro!: snapped_snap_scalar snapped_snap_elements)

text \<open>So is every value that \<^verbatim>\<open>xy_to_rtheta\<close> returns in its array branch.\<close>

lemma xy_to_rtheta_array_snapped:
  assumes "xy_to_rtheta x y = Inr (r, theta)" and "np_size r \<noteq> 1"
  shows "snapped r \<and> snapped theta"
proof -
  from assms(1) obtain r0 t0 where
    r0: "broadcast2 (\<lambda>a b. sqrt (a^2 + b^2)) x y = Inr r0"
    and t0: "broadcast2 (\<lambda>a b. arctan2 (- a) b * 180 / pi) x y = Inr t0"
    and res: "(r, theta) = (if np_size r0 = 1 then (r0, t0) else (snap_elements r0, snap_elements t0))"
    by (auto simp: xy_to_rtheta_def Let_def split: sum.splits if_splits)
  have sz: "np_size t0 = np_size r0" using broadcast2_size [OF r0 t0] .
  have "np_size r0 \<noteq> 1"
  proof
    assume "np_size r0 = 1"
    with res have "r = r0" by simp
    with \<open>np_size r0 = 1\<close> assms(2) show False by simp
  qed
  then show ?thesis using res sz by (auto simp: snapped_snap_elements)
qed

text \<open>
  C7 (the code at the failing input). In its scalar branch \<^verbatim>\<open>xy_to_rtheta\<close> compares and
  rebinds its arguments \<open>x\<close> and \<open>y\<close> and returns \<open>r\<close> and \<open>theta\<close> as computed. For
  \<open>x = 2\<^sup>-\<^sup>6\<^sup>0\<close> and \<open>y = 0\<close> the radius returned is \<open>2\<^sup>-\<^sup>6\<^sup>0\<close>: below machine epsilon
  and not zero.
\<close>

theorem xy_to_rtheta_scalar_not_snapped:
  "xy_to_rtheta (Scalar (1 / 2 ^ 60)) (Scalar 0) = Inr (Scalar (1 / 2 ^ 60), Scalar (- 90))
   \<and> \<not> snapped (Scalar (1 / 2 ^ 60))"
  by (simp add: xy_to_rtheta_def arctan2_def Let_def real_sqrt_divide epsilon_def)

theorem xy_to_rtheta_scalar_not_snapped_witness:
  "\<exists>r theta. xy_to_rtheta (Scalar (1 / 2 ^ 60)) (Scalar 0) = Inr (r, theta) \<and> \<not> snapped r"
  using xy_to_rtheta_scalar_not_snapped by blast

subsection \<open>Padding and cropping back\<close>

lemma py_int_half [simp]: "py_int (real d / 2 + 1 / 2) = int ((d + 1) div 2)"
proof -
  have "real d / 2 + 1 / 2 = real (d + 1) / real 2" by simp
  then have "\<lfloor>real d / 2 + 1 / 2\<rfloor> = int ((d + 1) div 2)"
    by (simp only: floor_divide_of_nat_eq)
  then show ?thesis by (simp add: py_int_def)
qed

lemma py_int_half_plus [simp]: "py_int (real d / 2 + real n + 1 / 2) = int ((d + 1) div 2 + n)"
proof -
  have "real d / 2 + real n + 1 / 2 = real (d + 1 + 2 * n) / real 2" by simp
  then have "\<lfloor>real d / 2 + real n + 1 / 2\<rfloor> = int ((d + 1 + 2 * n) div 2)"
    by (simp only: floor_divide_of_nat_eq)
  then show ?thesis by (simp add: py_int_def)
qed

lemma py_int_nat [simp]: "py_int (real n + 1 / 2) = int n"
  by (simp add: py_int_def)

lemma window_eq:
  "window a b = (((max a b - min a b) + 1) div 2, ((max a b - min a b) + 1) div 2 + min a b)"
proof -
  consider "a > b" | "b > a" | "a = b" by linarith
  then show ?thesis
  proof cases
    case 1
    then have r: "real a - real b = real (a - b)" by simp
    show ?thesis using 1 unfolding window_def Let_def r
      by (simp add: max_def min_def del: of_nat_diff)
  next
    case 2
    then have r: "real b - real a = real (b - a)" by simp
    show ?thesis using 2 unfolding window_def Let_def r
      by (simp add: max_def min_def del: of_nat_diff)
  next
    case 3
    then show ?thesis by (simp add: window_def py_int_def)
  qed
qed

lemma slice_replicate: "i1 \<le> n \<Longrightarrow> slice i0 i1 (replicate n z) = replicate (i1 - i0) z"
  by (auto simp: slice_def min_def)

lemma map2_replicate: "length ys = k \<Longrightarrow> map2 f (replicate k z) ys = map (f z) ys"
  by (induction ys arbitrary: k) auto

lemma pad_grow:
  fixes a :: "'a::monoid_add ndarray2"
  assumes wf: "wf_ndarray2 a" and y: "ny a \<le> Ny" and x: "nx a \<le> Nx"
  defines "m0 \<equiv> (Ny - ny a + 1) div 2" and "n0 \<equiv> (Nx - nx a + 1) div 2"
  shows "pad_or_cut_to_size interp a (ShapeTuple [Ny, Nx]) 0 None =
         Inr \<lparr>ny = Ny, nx = Nx,
              data = replicate m0 (replicate Nx 0)
                   @ map (\<lambda>row. replicate n0 0 @ row @ replicate (Nx - (n0 + nx a)) 0) (data a)
                   @ replicate (Ny - (m0 + ny a)) (replicate Nx 0)\<rparr>"
proof -
  have m1: "m0 + ny a \<le> Ny" using y unfolding m0_def by linarith
  have n1: "n0 + nx a \<le> Nx" using x unfolding n0_def by linarith
  have wy: "window Ny (ny a) = (m0, m0 + ny a)" using y by (simp add: window_eq m0_def max_def min_def)
  have wx: "window Nx (nx a) = (n0, n0 + nx a)" using x by (simp add: window_eq n0_def max_def min_def)
  have len: "length (data a) = ny a" using wf by (simp add: wf_ndarray2_def)
  show ?thesis
    using m1 n1 len x y
    by (simp add: pad_or_cut_to_size_def parse_new_shape_def parse_offset_vals_def Let_def wx wy
        set_slice2_def np_full_def slice_len_def min_def fshift_def isclose0_def
        slice_replicate map2_replicate)
qed


lemma slice_pad_row:
  "length row = k \<Longrightarrow> slice n0 (n0 + k) (replicate n0 z @ row @ q) = row"
  by (simp add: slice_def)

lemma map_slice_pad_rows:
  "list_all (\<lambda>row. length row = k) rows \<Longrightarrow>
   map (slice n0 (n0 + k) \<circ> (\<lambda>row. replicate n0 z @ row @ replicate j z)) rows = rows"
  by (induction rows) (simp_all add: slice_pad_row)

lemma slice_pad_rows:
  "length rows = k \<Longrightarrow> slice m0 (m0 + k) (replicate m0 z @ rows @ q) = rows"
  by (simp add: slice_def)

lemma map2_overwrite:
  "length ys = length xs \<Longrightarrow> list_all (\<lambda>row. length row = k) xs \<Longrightarrow>
   map2 (\<lambda>orow srow. take 0 orow @ srow @ drop k orow) xs ys = ys"
proof (induction xs arbitrary: ys)
  case Nil
  then show ?case by simp
next
  case (Cons x xs)
  then show ?case by (cases ys) auto
qed

lemma pad_crop:
  fixes a :: "'a::monoid_add ndarray2"
  assumes wf: "wf_ndarray2 a" and y: "ny a \<le> Ny" and x: "nx a \<le> Nx"
  defines "m0 \<equiv> (Ny - ny a + 1) div 2" and "n0 \<equiv> (Nx - nx a + 1) div 2"
  defines "b \<equiv> \<lparr>ny = Ny, nx = Nx,
              data = replicate m0 (replicate Nx 0)
                   @ map (\<lambda>row. replicate n0 0 @ row @ replicate (Nx - (n0 + nx a)) 0) (data a)
                   @ replicate (Ny - (m0 + ny a)) (replicate Nx 0)\<rparr>"
  shows "pad_or_cut_to_size interp b (ShapeTuple [ny a, nx a]) fill None = Inr a"
proof -
  have m1: "m0 + ny a \<le> Ny" using y unfolding m0_def by linarith
  have n1: "n0 + nx a \<le> Nx" using x unfolding n0_def by linarith
  have wy: "window (ny a) Ny = (m0, m0 + ny a)" using y by (simp add: window_eq m0_def max_def min_def)
  have wx: "window (nx a) Nx = (n0, n0 + nx a)" using x by (simp add: window_eq n0_def max_def min_def)
  have len: "length (data a) = ny a" and rows: "list_all (\<lambda>row. length row = nx a) (data a)"
    using wf by (simp_all add: wf_ndarray2_def)
  have a_eq: "a = \<lparr>ny = ny a, nx = nx a, data = data a\<rparr>" by simp
  have sl: "map (slice n0 (n0 + nx a)) (slice m0 (m0 + ny a) (data b)) = data a"
    unfolding b_def using len rows
    by (simp add: slice_pad_rows [where k = "ny a"] map_slice_pad_rows)
  show ?thesis
  proof (cases "nx a \<ge> Nx \<and> ny a \<ge> Ny")
    case True
    then have eq: "Nx = nx a" "Ny = ny a" using x y by auto
    then have z: "m0 = 0" "n0 = 0" by (simp_all add: m0_def n0_def)
    have db: "data b = data a" using len rows unfolding b_def z eq
      by (simp add: list_all_iff map_idI)
    have "map2 (\<lambda>orow srow. take 0 orow @ srow @ drop (nx a) orow)
            (replicate (ny a) (replicate (nx a) (if fill \<noteq> 0 then 0 + fill else 0))) (data a) = data a"
      by (rule map2_overwrite) (simp_all add: len list_all_iff)
    then have "pad_or_cut_to_size interp b (ShapeTuple [ny a, nx a]) fill None
        = Inr \<lparr>ny = ny a, nx = nx a, data = data a\<rparr>"
      using wx wy len unfolding z eq
      by (simp add: pad_or_cut_to_size_def parse_new_shape_def parse_offset_vals_def Let_def
          b_def [unfolded z eq] set_slice2_def np_full_def slice_len_def fshift_def isclose0_def
          slice_def db [unfolded b_def z eq])
    then show ?thesis using a_eq by simp
  next
    case False
    then have "pad_or_cut_to_size interp b (ShapeTuple [ny a, nx a]) fill None
        = Inr (get_slice2 b m0 (m0 + ny a) n0 (n0 + nx a))"
      using x y wx wy
      by (auto simp: pad_or_cut_to_size_def parse_new_shape_def parse_offset_vals_def Let_def b_def)
    also have "get_slice2 b m0 (m0 + ny a) n0 (n0 + nx a) = \<lparr>ny = ny a, nx = nx a, data = data a\<rparr>"
      using sl m1 n1 by (simp add: get_slice2_def slice_len_def b_def min_def)
    finally show ?thesis using a_eq by simp
  qed
qed

text \<open>
  C8. For every 2-D array \<open>a\<close> and every shape \<open>(Ny, Nx)\<close> at least as large as the shape of
  \<open>a\<close> in both axes, \<^verbatim>\<open>pad_or_cut_to_size(a, (Ny, Nx), fill_val=0)\<close> returns an array \<open>b\<close> of
  that shape, and \<^verbatim>\<open>pad_or_cut_to_size(b, a.shape)\<close> returns \<open>a\<close>; no offsets are given.
\<close>

theorem pad_or_cut_roundtrip:
  fixes a :: "'a::monoid_add ndarray2"
  assumes "wf_ndarray2 a" and "ny a \<le> Ny" and "nx a \<le> Nx"
  shows "\<exists>b. pad_or_cut_to_size interp a (ShapeTuple [Ny, Nx]) 0 None = Inr b
            \<and> ny b = Ny \<and> nx b = Nx
            \<and> pad_or_cut_to_size interp b (ShapeTuple [ny a, nx a]) 0 None = Inr a"
  using pad_grow [OF assms, of interp] pad_crop [OF assms, of interp 0]
  by simp

theorem pad_or_cut_roundtrip_witness:
  "wf_ndarray2 example_array
   \<and> pad_or_cut_to_size example_interp example_array (ShapeTuple [5, 4]) 0 None =
       Inr \<lparr>ny = 5, nx = 4,
            data = [[0, 0, 0, 0], [0, 0, 0, 0], [0, 1, 2, 3], [0, 4, 5, 6], [0, 0, 0, 0]]\<rparr>
   \<and> (\<exists>b. pad_or_cut_to_size example_interp example_array (ShapeTuple [5, 4]) 0 None = Inr b
          \<and> pad_or_cut_to_size example_interp b (ShapeTuple [2, 3]) 0 None = Inr example_array)"
proof -
  have wf: "wf_ndarray2 example_array"
    by (simp add: wf_ndarray2_def example_array_def)
  have wy: "window 5 2 = (2, 4)" and wx: "window 4 3 = (1, 4)"
    by (simp_all add: window_eq)
  have r: "replicate 5 (replicate 4 (0::real))
             = [[0, 0, 0, 0], [0, 0, 0, 0], [0, 0, 0, 0], [0, 0, 0, 0], [0, 0, 0, 0]]"
    by (simp add: numeral_eq_Suc)
  have ev: "pad_or_cut_to_size example_interp example_array (ShapeTuple [5, 4]) 0 None =
       Inr \<lparr>ny = 5, nx = 4,
            data = [[0, 0, 0, 0], [0, 0, 0, 0], [0, 1, 2, 3], [0, 4, 5, 6], [0, 0, 0, 0]]\<rparr>"
    by (simp add: pad_or_cut_to_size_def example_array_def parse_new_shape_def
        parse_offset_vals_def Let_def wx wy set_slice2_def np_full_def slice_len_def
        fshift_def isclose0_def slice_def r)
  show ?thesis
    using pad_or_cut_roundtrip [of example_array 5 4 example_interp] wf ev
    by (simp add: example_array_def)
qed

subsection \<open>\<^verbatim>\<open>calc_psf_from_coeff\<close>\<close>

lemma add_cfmod_IntZero [simp]: "add_cfmod m IntZero = m"
  by (cases m) simp_all

lemma coeff_mod_wfe_drift_zero [simp]: "coeff_mod_wfe_drift E self 0 key = ([], Inr IntZero)"
  by (simp add: coeff_mod_wfe_drift_def)







lemma calc_no_mask:
  assumes "psf_coeff self = Some c" and "image_mask self = None"
  shows "calc_psf_from_coeff E render self sp ro wfe_drift cv cf rh =
           (case coeff_mod_wfe_field E self cv cf of
              (lg, Inl e) \<Rightarrow> (lg, Inl e)
            | (lg, Inr r) \<Rightarrow> (lg, Inl (UnboundLocalError ''nfield_mask'')))"
  using assms by (simp add: calc_psf_from_coeff_def Let_def split: prod.splits sum.splits)

lemma coeff_mod_wfe_field_KeyError:
  assumes "priv_psf_coeff_mod self ''si_field'' \<noteq> None"
    and "priv_psf_coeff_mod self ''si_field_v2grid'' \<noteq> None"
    and "priv_psf_coeff_mod self ''si_field_v3grid'' \<noteq> None"
    and "priv_psf_coeff_mod self ''si_feild_apname'' = None"
  shows "coeff_mod_wfe_field E self cv cf = ([], Inl (KeyError ''si_feild_apname''))"
  using assms by (auto simp: coeff_mod_wfe_field_def dict_get_def)

lemma coeff_mod_wfe_field_no_coords_silent:
  assumes "coeff_mod_wfe_field E self None cf = (lg, Inr r)"
  shows "lg = [] \<and> r = (IntZero, None)"
  using assms by (auto simp: coeff_mod_wfe_field_def split: sum.splits)

text \<open>
  C1 (the code on every configuration without an image mask). With a coefficient cube in
  place and no image mask, \<^verbatim>\<open>calc_psf_from_coeff\<close> raises for every \<^verbatim>\<open>coord_vals\<close> and every
  drift. When the correction dictionary has the keys that \<^verbatim>\<open>_init_inst\<close> gives it, the
  exception is the \<^verbatim>\<open>KeyError\<close> of the misspelt key \<^verbatim>\<open>'si_feild_apname'\<close>, raised before any
  message is logged.
\<close>

theorem calc_psf_no_mask_raises:
  assumes "psf_coeff self = Some c" and "image_mask self = None"
  shows "(\<exists>lg e. calc_psf_from_coeff E render self sp ro wfe_drift cv cf rh = (lg, Inl e))
     \<and> (priv_psf_coeff_mod self ''si_field'' \<noteq> None
        \<and> priv_psf_coeff_mod self ''si_field_v2grid'' \<noteq> None
        \<and> priv_psf_coeff_mod self ''si_field_v3grid'' \<noteq> None
        \<and> priv_psf_coeff_mod self ''si_feild_apname'' = None
        \<longrightarrow> calc_psf_from_coeff E render self sp ro wfe_drift cv cf rh
              = ([], Inl (KeyError ''si_feild_apname'')))"
proof -
  have 1: "\<exists>lg e. calc_psf_from_coeff E render self sp ro wfe_drift cv cf rh = (lg, Inl e)"
    unfolding calc_no_mask [OF assms] by (auto split: prod.splits sum.splits)
  show ?thesis using 1 coeff_mod_wfe_field_KeyError [of self E cv cf]
    by (auto simp: calc_no_mask [OF assms])
qed

lemmas example_calc_defs = example_nircam_imaging_def init_inst_def base_instrument_def
  psf_coeff_mod_init_def is_coron_def NIRCam_ext_is_coron_def NIRCam_ext_is_lyot_def
  MIRI_ext_is_coron_def

theorem calc_psf_no_mask_raises_witness:
  "psf_coeff example_nircam_imaging = Some 1 \<and> image_mask example_nircam_imaging = None
   \<and> calc_psf_from_coeff example_ext example_render example_nircam_imaging () True None None ''tel'' True
       = ([], Inl (KeyError ''si_feild_apname''))
   \<and> calc_psf_from_coeff example_ext example_render example_nircam_imaging () True None
        (Some ([1], [2])) ''tel'' True
       = ([], Inl (KeyError ''si_feild_apname''))"
  using calc_psf_no_mask_raises [of example_nircam_imaging 1 example_ext example_render "()" True None None "''tel''" True]
    calc_psf_no_mask_raises [of example_nircam_imaging 1 example_ext example_render "()" True None "Some ([1], [2])" "''tel''" True]
  by (simp add: example_calc_defs Let_def)


lemmas example_drift_defs = example_miri_with_drift_def example_miri_coron_def example_calc_defs





lemma calc_mask_negative:
  assumes "psf_coeff self = Some c" and "d < 0" and "image_mask self = Some m"
  shows "calc_psf_from_coeff E render self sp ro (Some d) cv cf rh =
           (case coeff_mod_wfe_mask E self cv cf of
              (lg, Inl e) \<Rightarrow> (lg, Inl e)
            | (lg, Inr r) \<Rightarrow> (lg, Inl (AssertionError ''`wfe_drift should not be negative'')))"
  using assms
  by (simp add: calc_psf_from_coeff_def Let_def apply_wfe_drift_def split: prod.splits sum.splits)

text \<open>
  C9 (the code on a negative drift). With a coefficient cube in place, a negative
  \<^verbatim>\<open>wfe_drift\<close> never yields a PSF. With an image mask, once \<^verbatim>\<open>_coeff_mod_wfe_mask\<close> has
  returned, the exception is the \<^verbatim>\<open>AssertionError\<close>. Without an image mask the assertion is
  not reached: the call fails as it does for \<^verbatim>\<open>wfe_drift=None\<close>.
\<close>

theorem calc_psf_negative_drift:
  assumes "psf_coeff self = Some c" and "d < 0"
  shows "(\<exists>lg e. calc_psf_from_coeff E render self sp ro (Some d) cv cf rh = (lg, Inl e))
     \<and> (image_mask self \<noteq> None \<and> coeff_mod_wfe_mask E self cv cf = (lg0, Inr r)
         \<longrightarrow> calc_psf_from_coeff E render self sp ro (Some d) cv cf rh
               = (lg0, Inl (AssertionError ''`wfe_drift should not be negative'')))
     \<and> (image_mask self = None
         \<longrightarrow> calc_psf_from_coeff E render self sp ro (Some d) cv cf rh
               = calc_psf_from_coeff E render self sp ro None cv cf rh)"
proof (cases "image_mask self")
  case None
  have "\<exists>lg e. calc_psf_from_coeff E render self sp ro (Some d) cv cf rh = (lg, Inl e)"
    unfolding calc_no_mask [OF assms(1) None] by (auto split: prod.splits sum.splits)
  then show ?thesis using None by (simp add: calc_no_mask [OF assms(1) None])
next
  case (Some m)
  have "\<exists>lg e. calc_psf_from_coeff E render self sp ro (Some d) cv cf rh = (lg, Inl e)"
    unfolding calc_mask_negative [OF assms Some] by (auto split: prod.splits sum.splits)
  then show ?thesis using Some by (simp add: calc_mask_negative [OF assms Some])
qed

theorem calc_psf_negative_drift_witness:
  "calc_psf_from_coeff example_ext example_render example_nircam_imaging () True (Some (- 1)) None ''tel'' True
     = ([], Inl (KeyError ''si_feild_apname''))
   \<and> calc_psf_from_coeff example_ext example_render example_miri_with_drift () True (Some (- 1)) None ''tel'' True
     = ([], Inl (AssertionError ''`wfe_drift should not be negative''))"
proof -
  have m: "coeff_mod_wfe_mask example_ext example_miri_with_drift None ''tel'' = ([], Inr (IntZero, None))"
    by (simp add: example_drift_defs coeff_mod_wfe_mask_def dict_get_def get_siaf_ap_def Let_def)
  have k: "calc_psf_from_coeff example_ext example_render example_nircam_imaging () True None None ''tel'' True
     = ([], Inl (KeyError ''si_feild_apname''))"
    by (simp add: example_calc_defs calc_psf_from_coeff_def coeff_mod_wfe_field_def dict_get_def Let_def)
  show ?thesis
    using calc_psf_negative_drift [of example_nircam_imaging 1 "- 1" example_ext example_render "()" True None "''tel''" True "[]" "(IntZero, None)"]
      calc_psf_negative_drift [of example_miri_with_drift 1 "- 1" example_ext example_render "()" True None "''tel''" True "[]" "(IntZero, None)"]
      m k
    by (simp add: example_drift_defs Let_def)
qed


end
